theory Spec2Isabelle
  imports Main
begin

section \<open>The values of a loaded document\<close>

text \<open>
  \<^verbatim>\<open>yaml.safe_load\<close> returns built-in Python objects. The model has the seven kinds of the
  YAML core schema: \<^verbatim>\<open>None\<close>, \<^verbatim>\<open>bool\<close>, \<^verbatim>\<open>int\<close>, \<^verbatim>\<open>float\<close>, \<^verbatim>\<open>str\<close>, \<^verbatim>\<open>list\<close> and \<^verbatim>\<open>dict\<close>.
  The objects of the other tags (timestamps, \<^verbatim>\<open>!!binary\<close>, \<^verbatim>\<open>!!set\<close>, \<^verbatim>\<open>!!omap\<close>, \<^verbatim>\<open>!!pairs\<close>)
  are not modelled.

  A Python \<^verbatim>\<open>float\<close> is an IEEE double. The program observes a float in two ways only: its
  truth value (\<^verbatim>\<open>if project:\<close>) and the text \<^verbatim>\<open>str()\<close> gives for it. A float is therefore
  carried as these two observations.

  A \<^verbatim>\<open>str\<close> is a \<^typ>\<open>string\<close>: the bytes of its UTF-8 encoding. A \<^verbatim>\<open>dict\<close> is an
  association list in insertion order; the keys of a Python dict are pairwise distinct.
\<close>

record pyfloat =
  float_nonzero :: bool
  float_text :: string

datatype yval =
    YNull
  | YBool bool
  | YInt int
  | YFloat pyfloat
  | YStr string
  | YList "yval list"
  | YMap "(yval \<times> yval) list"

text \<open>The exceptions the program can meet.\<close>

datatype py_exc =
    FileNotFoundError
  | OSError
  | YAMLError string
  | AttributeError
  | TypeError
  | IndexError
  | UnicodeEncodeError

text \<open>Sequencing of statements that may raise: the first exception ends the computation.\<close>

definition and_then :: "py_exc + 'a \<Rightarrow> ('a \<Rightarrow> py_exc + 'b) \<Rightarrow> py_exc + 'b" where
  "and_then m f = (case m of Inl e \<Rightarrow> Inl e | Inr x \<Rightarrow> f x)"

section \<open>The Python built-ins the program calls\<close>

definition digit_char :: "nat \<Rightarrow> char" where
  "digit_char d = ''0123456789'' ! d"

text \<open>\<^verbatim>\<open>str(n)\<close> for a non-negative integer: its decimal digits.\<close>

fun str_nat :: "nat \<Rightarrow> string" where
  "str_nat n = (if n < 10 then [digit_char n] else str_nat (n div 10) @ [digit_char (n mod 10)])"

declare str_nat.simps [simp del]

definition str_int :: "int \<Rightarrow> string" where
  "str_int i = (if i < 0 then CHR ''-'' # str_nat (nat (- i)) else str_nat (nat i))"

text \<open>\<^verbatim>\<open>sep.join(items)\<close> on strings.\<close>

fun join :: "string \<Rightarrow> string list \<Rightarrow> string" where
  "join sep [] = []"
| "join sep [x] = x"
| "join sep (x # y # ys) = x @ sep @ join sep (y # ys)"

definition hex_digit :: "nat \<Rightarrow> char" where
  "hex_digit d = ''0123456789abcdef'' ! d"

text \<open>
  \<^verbatim>\<open>repr\<close> of a \<^verbatim>\<open>str\<close> (CPython's \<^verbatim>\<open>unicode_repr\<close>): double quotes when the text has a single
  quote and no double quote, single quotes otherwise; the quote and the backslash are
  escaped, as are tab, newline, carriage return and the other ASCII control characters.
  Bytes from 0x80 up (the UTF-8 encoding of non-ASCII characters) are kept, as Python keeps
  every printable character.
\<close>

definition repr_char :: "char \<Rightarrow> char \<Rightarrow> string" where
  "repr_char q c =
     (if c = q \<or> c = CHR 0x5C then [CHR 0x5C, c]
      else if c = CHR 0x09 then [CHR 0x5C, CHR ''t'']
      else if c = CHR 0x0A then [CHR 0x5C, CHR ''n'']
      else if c = CHR 0x0D then [CHR 0x5C, CHR ''r'']
      else if of_char c < (32::nat) \<or> c = CHR 0x7F
        then [CHR 0x5C, CHR ''x'', hex_digit (of_char c div 16), hex_digit (of_char c mod 16)]
      else [c])"

definition str_repr :: "string \<Rightarrow> string" where
  "str_repr s =
     (let q = (if CHR 0x27 \<in> set s \<and> CHR 0x22 \<notin> set s then CHR 0x22 else CHR 0x27)
      in q # concat (map (repr_char q) s) @ [q])"

fun py_repr :: "yval \<Rightarrow> string" where
  "py_repr YNull = ''None''"
| "py_repr (YBool b) = (if b then ''True'' else ''False'')"
| "py_repr (YInt i) = str_int i"
| "py_repr (YFloat f) = float_text f"
| "py_repr (YStr s) = str_repr s"
| "py_repr (YList xs) = ''['' @ join '', '' (map py_repr xs) @ '']''"
| "py_repr (YMap kvs) =
     ''{'' @ join '', '' (map (\<lambda>kv. py_repr (fst kv) @ '': '' @ py_repr (snd kv)) kvs) @ ''}''"

text \<open>\<^verbatim>\<open>str(value)\<close>: a string is itself, every other object is its \<^verbatim>\<open>repr\<close>.\<close>

fun py_str :: "yval \<Rightarrow> string" where
  "py_str (YStr s) = s"
| "py_str v = py_repr v"

text \<open>
  \<^verbatim>\<open>str.lower()\<close>, on ASCII letters. (Python also maps the non-ASCII capital letters; the
  program lowers only the text of the \<^verbatim>\<open>enabled\<close> and \<^verbatim>\<open>auto_fix\<close> values.)
\<close>

definition lower_char :: "char \<Rightarrow> char" where
  "lower_char c =
     (case map_of (zip ''ABCDEFGHIJKLMNOPQRSTUVWXYZ'' ''abcdefghijklmnopqrstuvwxyz'') c of
        None \<Rightarrow> c
      | Some l \<Rightarrow> l)"

definition lower :: "string \<Rightarrow> string" where
  "lower s = map lower_char s"

text \<open>The truth value of an object (\<^verbatim>\<open>if project:\<close>).\<close>

fun truthy :: "yval \<Rightarrow> bool" where
  "truthy YNull = False"
| "truthy (YBool b) = b"
| "truthy (YInt i) = (i \<noteq> 0)"
| "truthy (YFloat f) = float_nonzero f"
| "truthy (YStr s) = (s \<noteq> [])"
| "truthy (YList xs) = (xs \<noteq> [])"
| "truthy (YMap kvs) = (kvs \<noteq> [])"

text \<open>
  \<^verbatim>\<open>obj.get(key, default)\<close>: only a dict has the method; on any other object the attribute
  lookup raises \<^verbatim>\<open>AttributeError\<close>. A key that is present yields its value, also when the
  value is \<^verbatim>\<open>None\<close>.
\<close>

fun dict_get :: "yval \<Rightarrow> string \<Rightarrow> yval \<Rightarrow> py_exc + yval" where
  "dict_get (YMap kvs) k d = Inr (case map_of kvs (YStr k) of None \<Rightarrow> d | Some v \<Rightarrow> v)"
| "dict_get v k d = Inl AttributeError"

text \<open>\<^verbatim>\<open>len(obj)\<close>: sized objects are lists, dicts and strings.\<close>

fun py_len :: "yval \<Rightarrow> py_exc + nat" where
  "py_len (YList xs) = Inr (length xs)"
| "py_len (YMap kvs) = Inr (length kvs)"
| "py_len (YStr s) = Inr (length s)"
| "py_len v = Inl TypeError"

text \<open>
  Iteration: a list yields its elements, a dict its keys, a string its characters as
  one-character strings; anything else is not iterable.
\<close>

fun py_iter :: "yval \<Rightarrow> py_exc + yval list" where
  "py_iter (YList xs) = Inr xs"
| "py_iter (YMap kvs) = Inr (map fst kvs)"
| "py_iter (YStr s) = Inr (map (\<lambda>c. YStr [c]) s)"
| "py_iter v = Inl TypeError"

text \<open>\<^verbatim>\<open>sep.join(obj)\<close>: the object is iterated and every item must be a string.\<close>

fun str_items :: "yval list \<Rightarrow> py_exc + string list" where
  "str_items [] = Inr []"
| "str_items (YStr s # vs) = and_then (str_items vs) (\<lambda>ss. Inr (s # ss))"
| "str_items (v # vs) = Inl TypeError"

definition py_join :: "string \<Rightarrow> yval \<Rightarrow> py_exc + string" where
  "py_join sep obj =
     and_then (py_iter obj) (\<lambda>items.
     and_then (str_items items) (\<lambda>ss. Inr (join sep ss)))"

fun isinstance_str :: "yval \<Rightarrow> bool" where
  "isinstance_str (YStr s) = True"
| "isinstance_str v = False"

section \<open>\<^verbatim>\<open>shlex.quote\<close>\<close>

text \<open>
  The standard library's \<^verbatim>\<open>shlex.quote\<close>: the empty string becomes \<^verbatim>\<open>''\<close>; a string of safe
  characters only (\<^verbatim>\<open>[A-Za-z0-9_@%+=:,./-]\<close>) is returned as it is; any other string is put in
  single quotes, each single quote of it written \<^verbatim>\<open>'"'"'\<close>.
\<close>

definition safe_char :: "char \<Rightarrow> bool" where
  "safe_char c \<longleftrightarrow>
     c \<in> set ''abcdefghijklmnopqrstuvwxyzABCDEFGHIJKLMNOPQRSTUVWXYZ0123456789_@%+=:,./-''"

definition squote :: char where
  "squote = CHR 0x27"

definition dquote :: char where
  "dquote = CHR 0x22"

definition replace_squote :: "string \<Rightarrow> string" where
  "replace_squote s =
     concat (map (\<lambda>c. if c = squote then [squote, dquote, squote, dquote, squote] else [c]) s)"

definition shlex_quote :: "string \<Rightarrow> string" where
  "shlex_quote s =
     (if s = [] then [squote, squote]
      else if list_all safe_char s then s
      else squote # replace_squote s @ [squote])"

section \<open>The program\<close>

text \<open>\<^verbatim>\<open>shell_escape(value)\<close>\<close>

definition shell_escape :: "yval \<Rightarrow> string" where
  "shell_escape v = (if v = YNull then [] else shlex_quote (py_str v))"

text \<open>The body of the loop over \<^verbatim>\<open>enumerate(jobs)\<close>: the six lines of job \<open>i\<close>.\<close>

definition job_lines :: "nat \<Rightarrow> yval \<Rightarrow> py_exc + string list" where
  "job_lines i job =
     and_then (dict_get job ''name'' (YStr (''job_'' @ str_nat i))) (\<lambda>name.
     and_then (dict_get job ''script'' (YStr [])) (\<lambda>script.
     and_then (dict_get job ''type'' (YStr ''sbatch'')) (\<lambda>type.
     and_then (dict_get job ''array'' (YStr [])) (\<lambda>array.
     and_then (dict_get job ''depends_on'' (YList [])) (\<lambda>depends.
     and_then (py_join '','' (if isinstance_str depends then YList [depends] else depends)) (\<lambda>joined.
     and_then (dict_get job ''sbatch_flags'' (YStr [])) (\<lambda>extra.
     Inr [''JOB_'' @ str_nat i @ ''_NAME='' @ shell_escape name,
          ''JOB_'' @ str_nat i @ ''_SCRIPT='' @ shell_escape script,
          ''JOB_'' @ str_nat i @ ''_TYPE='' @ shell_escape type,
          ''JOB_'' @ str_nat i @ ''_ARRAY='' @ shell_escape array,
          ''JOB_'' @ str_nat i @ ''_DEPENDS_ON='' @ shell_escape (YStr joined),
          ''JOB_'' @ str_nat i @ ''_SBATCH_FLAGS='' @ shell_escape extra])))))))"

text \<open>The loop itself, from index \<open>i\<close> on.\<close>

fun jobs_loop :: "nat \<Rightarrow> yval list \<Rightarrow> py_exc + string list" where
  "jobs_loop i [] = Inr []"
| "jobs_loop i (job # rest) =
     and_then (job_lines i job) (\<lambda>ls.
     and_then (jobs_loop (Suc i) rest) (\<lambda>more. Inr (ls @ more)))"

text \<open>The \<^verbatim>\<open>project\<close> part: a line only when the value is true.\<close>

definition project_lines :: "yval \<Rightarrow> py_exc + string list" where
  "project_lines config =
     and_then (dict_get config ''project'' (YMap [])) (\<lambda>project.
     if truthy project
     then and_then (dict_get project ''name'' (YStr [])) (\<lambda>name.
            Inr [''PROJECT_NAME='' @ shell_escape name])
     else Inr [])"

text \<open>The \<^verbatim>\<open>jobs\<close> part: the count, then the lines of every job.\<close>

definition jobs_lines :: "yval \<Rightarrow> py_exc + string list" where
  "jobs_lines config =
     and_then (dict_get config ''jobs'' (YList [])) (\<lambda>jobs.
     and_then (py_len jobs) (\<lambda>n.
     and_then (py_iter jobs) (\<lambda>elems.
     and_then (jobs_loop 0 elems) (\<lambda>ls.
     Inr ((''NUM_JOBS='' @ str_nat n) # ls)))))"

text \<open>The \<^verbatim>\<open>claude\<close> part: seven lines.\<close>

definition claude_lines :: "yval \<Rightarrow> py_exc + string list" where
  "claude_lines config =
     and_then (dict_get config ''claude'' (YMap [])) (\<lambda>claude.
     and_then (dict_get claude ''enabled'' (YBool False)) (\<lambda>enabled.
     and_then (dict_get claude ''auto_fix'' (YBool False)) (\<lambda>auto_fix.
     and_then (dict_get claude ''max_fix_cycles'' (YInt 3)) (\<lambda>max_fix_cycles.
     and_then (dict_get claude ''review_model'' (YStr ''sonnet'')) (\<lambda>review_model.
     and_then (dict_get claude ''fix_model'' (YStr ''opus'')) (\<lambda>fix_model.
     and_then (dict_get claude ''review_budget'' (YStr ''0.50'')) (\<lambda>review_budget.
     and_then (dict_get claude ''fix_budget'' (YStr ''1.00'')) (\<lambda>fix_budget.
     Inr [''CLAUDE_ENABLED='' @ shell_escape (YStr (lower (py_str enabled))),
          ''CLAUDE_AUTO_FIX='' @ shell_escape (YStr (lower (py_str auto_fix))),
          ''CLAUDE_MAX_FIX_CYCLES='' @ shell_escape max_fix_cycles,
          ''CLAUDE_REVIEW_MODEL='' @ shell_escape review_model,
          ''CLAUDE_FIX_MODEL='' @ shell_escape fix_model,
          ''CLAUDE_REVIEW_BUDGET='' @ shell_escape review_budget,
          ''CLAUDE_FIX_BUDGET='' @ shell_escape fix_budget]))))))))"

text \<open>
  The list \<^verbatim>\<open>lines\<close> of \<^verbatim>\<open>parse_cluster_yaml\<close> once the document is loaded, in the order the
  statements run.
\<close>

definition flatten :: "yval \<Rightarrow> py_exc + string list" where
  "flatten config =
     and_then (project_lines config) (\<lambda>pl.
     and_then (jobs_lines config) (\<lambda>jl.
     and_then (claude_lines config) (\<lambda>cl.
     Inr (pl @ jl @ cl))))"

text \<open>
  The outside world: what \<^verbatim>\<open>open(path)\<close> yields, what \<^verbatim>\<open>yaml.safe_load\<close> makes of a file's
  content, and which texts the encoding of standard output can encode. The parser is a
  black box that returns an object or raises \<^verbatim>\<open>yaml.YAMLError\<close> with a message. \<^verbatim>\<open>print\<close>
  encodes its text at once and raises \<^verbatim>\<open>UnicodeEncodeError\<close> when the encoding of standard
  output has no code for a character of it (a lone surrogate, or a non-ASCII character on
  an ASCII standard output); nothing of the text is written then. Standard error replaces
  what it cannot encode, so printing a message there raises no such error.
\<close>

datatype open_result = NoSuchFile | Unreadable | Content string

datatype load_result = Malformed string | Loaded yval

record world =
  open_file :: "string \<Rightarrow> open_result"
  safe_load :: "string \<Rightarrow> load_result"
  stdout_encodes :: "string \<Rightarrow> bool"

definition parse_cluster_yaml :: "world \<Rightarrow> string \<Rightarrow> py_exc + string" where
  "parse_cluster_yaml w path =
     (case open_file w path of
        NoSuchFile \<Rightarrow> Inl FileNotFoundError
      | Unreadable \<Rightarrow> Inl OSError
      | Content text \<Rightarrow>
         (case safe_load w text of
            Malformed msg \<Rightarrow> Inl (YAMLError msg)
          | Loaded config \<Rightarrow>
             and_then (flatten config) (\<lambda>lines. Inr (join [CHR 0x0A] lines))))"

text \<open>
  The script's main block. A run that ends normally or by \<^verbatim>\<open>sys.exit\<close> is \<open>Inr\<close> of what it
  wrote and its exit status; an exception that no handler catches leaves the block as
  \<open>Inl\<close>. The \<^verbatim>\<open>try\<close> block holds two statements, the call and the \<^verbatim>\<open>print\<close> of its result;
  the handlers see the exceptions of both.
\<close>

record run =
  stdout :: string
  stderr :: string
  exit_status :: nat

definition main :: "world \<Rightarrow> string list \<Rightarrow> py_exc + run" where
  "main w argv =
     (if length argv \<noteq> 2
      then (case argv of
              [] \<Rightarrow> Inl IndexError
            | prog # _ \<Rightarrow>
                Inr \<lparr>stdout = [], stderr = ''Usage: '' @ prog @ '' <cluster.yaml>'' @ [CHR 0x0A],
                     exit_status = 1\<rparr>)
      else (case and_then (parse_cluster_yaml w (argv ! 1)) (\<lambda>output.
                   if stdout_encodes w (output @ [CHR 0x0A]) then Inr output
                   else Inl UnicodeEncodeError) of
              Inr output \<Rightarrow> Inr \<lparr>stdout = output @ [CHR 0x0A], stderr = [], exit_status = 0\<rparr>
            | Inl FileNotFoundError \<Rightarrow>
                Inr \<lparr>stdout = [], stderr = ''Error: '' @ argv ! 1 @ '' not found'' @ [CHR 0x0A],
                     exit_status = 1\<rparr>
            | Inl (YAMLError msg) \<Rightarrow>
                Inr \<lparr>stdout = [], stderr = ''Error parsing YAML: '' @ msg @ [CHR 0x0A],
                     exit_status = 1\<rparr>
            | Inl e \<Rightarrow> Inl e))"

section \<open>The shell that reads the output\<close>

text \<open>
  The caller evaluates each line with a POSIX shell. The model is the quoting grammar of
  the Shell Command Language (POSIX.1, Quoting) for one word, read to the end of the input:
  \<^item> between single quotes every character stands for itself;
  \<^item> between double quotes a backslash escapes \<^verbatim>\<open>$\<close>, a backquote, \<^verbatim>\<open>"\<close> and \<^verbatim>\<open>\\<close>, and joins
    lines before a newline; any other character stands for itself, but \<^verbatim>\<open>$\<close> and the
    backquote start an expansion;
  \<^item> outside quotes a backslash makes the next character stand for itself (and joins lines
    before a newline); an operator, a blank, a newline, or a character that starts an
    expansion or a pattern ends the reading.
  Where the value would depend on the shell's state (an expansion, a pattern, a second
  word), or the quoting is not closed, the result is \<open>None\<close>.

  A NUL byte is not a character of a shell's input, quoted or not: no shell variable can
  hold it, and shells drop the byte or stop at it. A word with a NUL byte in it has no
  value that the grammar determines: the result is \<open>None\<close>.
\<close>

datatype quoting = Unquoted | Single | Double

definition backslash :: char where
  "backslash = CHR 0x5C"

definition newline :: char where
  "newline = CHR 0x0A"

definition nul :: char where
  "nul = CHR 0x00"

definition sh_special :: "char \<Rightarrow> bool" where
  "sh_special c \<longleftrightarrow>
     c \<in> set [CHR ''|'', CHR ''&'', CHR '';'', CHR ''<'', CHR ''>'', CHR ''('', CHR '')'',
              CHR ''$'', CHR 0x60, CHR '' '', CHR 0x09, CHR 0x0A,
              CHR ''*'', CHR ''?'', CHR ''['', CHR ''#'', CHR ''~'']"

fun sh_word :: "quoting \<Rightarrow> string \<Rightarrow> string option" where
  "sh_word Unquoted [] = Some []"
| "sh_word Single [] = None"
| "sh_word Double [] = None"
| "sh_word Unquoted (c # cs) =
     (if c = nul then None
      else if c = squote then sh_word Single cs
      else if c = dquote then sh_word Double cs
      else if c = backslash then
        (case cs of
           [] \<Rightarrow> None
         | d # ds \<Rightarrow>
             if d = nul then None
             else if d = newline then sh_word Unquoted ds
             else map_option ((#) d) (sh_word Unquoted ds))
      else if sh_special c then None
      else map_option ((#) c) (sh_word Unquoted cs))"
| "sh_word Single (c # cs) =
     (if c = nul then None
      else if c = squote then sh_word Unquoted cs
      else map_option ((#) c) (sh_word Single cs))"
| "sh_word Double (c # cs) =
     (if c = nul then None
      else if c = dquote then sh_word Unquoted cs
      else if c = backslash then
        (case cs of
           [] \<Rightarrow> None
         | d # ds \<Rightarrow>
             if d = nul then None
             else if d = CHR ''$'' \<or> d = CHR 0x60 \<or> d = dquote \<or> d = backslash
               then map_option ((#) d) (sh_word Double ds)
             else if d = newline then sh_word Double ds
             else map_option (\<lambda>r. backslash # d # r) (sh_word Double ds))
      else if c = CHR ''$'' \<or> c = CHR 0x60 then None
      else map_option ((#) c) (sh_word Double cs))"

text \<open>
  A shell name: letters, digits and underscores, not starting with a digit.
\<close>

definition name_char :: "char \<Rightarrow> bool" where
  "name_char c \<longleftrightarrow>
     c \<in> set ''abcdefghijklmnopqrstuvwxyzABCDEFGHIJKLMNOPQRSTUVWXYZ0123456789_''"

definition sh_name :: "string \<Rightarrow> bool" where
  "sh_name n \<longleftrightarrow> n \<noteq> [] \<and> list_all name_char n \<and> hd n \<notin> set ''0123456789''"

text \<open>
  Evaluating one assignment \<^verbatim>\<open>NAME=word\<close>: the name before the first \<^verbatim>\<open>=\<close>, and the value the
  variable gets.
\<close>

definition sh_assign :: "string \<Rightarrow> (string \<times> string) option" where
  "sh_assign line =
     (let n = takeWhile (\<lambda>c. c \<noteq> CHR ''='') line;
          rest = dropWhile (\<lambda>c. c \<noteq> CHR ''='') line
      in if sh_name n \<and> rest \<noteq> []
         then map_option (Pair n) (sh_word Unquoted (tl rest))
         else None)"

section \<open>Reading the output\<close>

text \<open>A line assigns the variable \<open>n\<close> when it starts with \<open>n\<close> and an equals sign.\<close>

definition has_name :: "string \<Rightarrow> string \<Rightarrow> bool" where
  "has_name n l \<longleftrightarrow> take (Suc (length n)) l = n @ ''=''"

section \<open>Example documents\<close>

text \<open>
  The document of the specification's example: a project name, one job with a name, a
  script and an array range, and no \<^verbatim>\<open>claude\<close> section.
\<close>

definition demo_doc :: yval where
  "demo_doc =
     YMap [(YStr ''project'', YMap [(YStr ''name'', YStr ''demo'')]),
           (YStr ''jobs'',
            YList [YMap [(YStr ''name'', YStr ''simulation''),
                         (YStr ''script'', YStr ''submit_gate.sbatch''),
                         (YStr ''array'', YStr ''1-10'')]])]"

text \<open>
  The document behind the output shown in the script's docstring: two jobs, the second
  depending on the first, and a \<^verbatim>\<open>claude\<close> section with every field set. The budgets are
  written as numbers (\<^verbatim>\<open>0.50\<close>, \<^verbatim>\<open>1.00\<close>), so they load as the floats 0.5 and 1.0.
\<close>

definition docstring_doc :: yval where
  "docstring_doc =
     YMap [(YStr ''jobs'',
            YList [YMap [(YStr ''name'', YStr ''simulation''),
                         (YStr ''script'', YStr ''submit_gate.sbatch''),
                         (YStr ''array'', YStr ''1-10'')],
                   YMap [(YStr ''name'', YStr ''merge_results''),
                         (YStr ''script'', YStr ''merge_results.sbatch''),
                         (YStr ''depends_on'', YStr ''simulation'')]]),
           (YStr ''claude'',
            YMap [(YStr ''enabled'', YBool True),
                  (YStr ''auto_fix'', YBool True),
                  (YStr ''max_fix_cycles'', YInt 3),
                  (YStr ''review_model'', YStr ''sonnet''),
                  (YStr ''fix_model'', YStr ''opus''),
                  (YStr ''review_budget'', YFloat \<lparr>float_nonzero = True, float_text = ''0.5''\<rparr>),
                  (YStr ''fix_budget'', YFloat \<lparr>float_nonzero = True, float_text = ''1.0''\<rparr>)])]"

text \<open>
  A world with one file, \<^verbatim>\<open>cluster.yaml\<close>, whose content the parser loads as \<open>demo_doc\<close>, and
  one file, \<^verbatim>\<open>broken.yaml\<close>, whose content the parser rejects. Its standard output encodes
  every text (UTF-8, and no lone surrogate in sight).
\<close>

definition demo_world :: world where
  "demo_world =
     \<lparr>open_file = (\<lambda>path. if path = ''cluster.yaml'' then Content ''demo''
                           else if path = ''broken.yaml'' then Content ''{''
                           else NoSuchFile),
      safe_load = (\<lambda>body. if body = ''demo'' then Loaded demo_doc
                           else Malformed ''while parsing a flow node''),
      stdout_encodes = (\<lambda>t. True)\<rparr>"

text \<open>
  The same file on an ASCII standard output, with a project name that is not ASCII (the
  two bytes of a small e with an acute accent).
\<close>

definition ascii_char :: "char \<Rightarrow> bool" where
  "ascii_char c \<longleftrightarrow> of_char c < (128::nat)"

definition ascii :: "string \<Rightarrow> bool" where
  "ascii s = list_all ascii_char s"

definition accent_doc :: yval where
  "accent_doc = YMap [(YStr ''project'', YMap [(YStr ''name'', YStr [CHR 0xC3, CHR 0xA9])])]"

text \<open>The text the program returns for this document.\<close>

definition accent_output :: string where
  "accent_output =
     join [CHR 0x0A]
       [''PROJECT_NAME='' @ [CHR 0x27, CHR 0xC3, CHR 0xA9, CHR 0x27], ''NUM_JOBS=0'',
        ''CLAUDE_ENABLED=false'', ''CLAUDE_AUTO_FIX=false'', ''CLAUDE_MAX_FIX_CYCLES=3'',
        ''CLAUDE_REVIEW_MODEL=sonnet'', ''CLAUDE_FIX_MODEL=opus'',
        ''CLAUDE_REVIEW_BUDGET=0.50'', ''CLAUDE_FIX_BUDGET=1.00'']"

definition ascii_stdout_world :: world where
  "ascii_stdout_world =
     \<lparr>open_file = (\<lambda>path. if path = ''cluster.yaml'' then Content ''accent'' else NoSuchFile),
      safe_load = (\<lambda>body. if body = ''accent'' then Loaded accent_doc
                           else Malformed ''while parsing a flow node''),
      stdout_encodes = ascii\<rparr>"

text \<open>
  A world whose files load as something that is not a mapping: an empty file loads as
  \<^verbatim>\<open>None\<close>, and a file that holds a number loads as that number.
\<close>

definition nonmapping_world :: world where
  "nonmapping_world =
     \<lparr>open_file = (\<lambda>path. if path = ''empty.yaml'' then Content []
                           else if path = ''scalar.yaml'' then Content ''42''
                           else NoSuchFile),
      safe_load = (\<lambda>body. if body = [] then Loaded YNull
                           else if body = ''42'' then Loaded (YInt 42)
                           else Malformed ''could not find expected document''),
      stdout_encodes = (\<lambda>t. True)\<rparr>"

text \<open>
  A world whose one file loads as a mapping with a string for \<^verbatim>\<open>project\<close> and \<^verbatim>\<open>null\<close> for
  \<^verbatim>\<open>jobs\<close>, and one whose file has \<^verbatim>\<open>null\<close> for \<^verbatim>\<open>jobs\<close> only.
\<close>

definition null_jobs_world :: world where
  "null_jobs_world =
     \<lparr>open_file = (\<lambda>path. if path = ''both.yaml'' then Content ''both''
                           else if path = ''jobs.yaml'' then Content ''jobs''
                           else NoSuchFile),
      safe_load = (\<lambda>body. if body = ''both''
                             then Loaded (YMap [(YStr ''project'', YStr ''x''), (YStr ''jobs'', YNull)])
                           else if body = ''jobs'' then Loaded (YMap [(YStr ''jobs'', YNull)])
                           else Malformed ''could not find expected document''),
      stdout_encodes = (\<lambda>t. True)\<rparr>"

section \<open>The exceptions of the flattening\<close>

text \<open>The two kinds of exception the statements after the load can raise.\<close>

definition raised_by_flatten :: "py_exc \<Rightarrow> bool" where
  "raised_by_flatten e \<longleftrightarrow> e = AttributeError \<or> e = TypeError"

section \<open>Scalars and their rendering\<close>

text \<open>
  \<open>field kvs k d\<close> is what \<^verbatim>\<open>get(k, d)\<close> returns on the mapping \<open>kvs\<close>.

  A scalar is \<^verbatim>\<open>None\<close>, a boolean, a float, a string, or an int that \<^verbatim>\<open>str()\<close> converts: from
  Python 3.11 on, \<^verbatim>\<open>str()\<close> of an int of more than 4300 decimal digits raises \<^verbatim>\<open>ValueError\<close>
  (the default limit), which \<open>str_int\<close> does not model; a statement about the text of an int
  is made for ints within the limit.

  \<open>emits line name v\<close> says, for a scalar \<open>v\<close>, that the line assigns to \<open>name\<close> the value
  converted with \<^verbatim>\<open>str()\<close> and then quoted with \<^verbatim>\<open>shlex.quote\<close>, and the empty text when the
  value is \<^verbatim>\<open>None\<close>. \<open>emits_lowered\<close> says the same with the text of \<^verbatim>\<open>str()\<close> put in lower case
  before the quoting, for a text that is ASCII (on which \<open>lower\<close> is \<^verbatim>\<open>str.lower\<close>).
\<close>

definition field :: "(yval \<times> yval) list \<Rightarrow> string \<Rightarrow> yval \<Rightarrow> yval" where
  "field kvs k d = (case map_of kvs (YStr k) of None \<Rightarrow> d | Some v \<Rightarrow> v)"

definition max_str_digits :: nat where
  "max_str_digits = 4300"

fun scalar :: "yval \<Rightarrow> bool" where
  "scalar (YList xs) = False"
| "scalar (YMap kvs) = False"
| "scalar (YInt i) = (length (str_nat (nat \<bar>i\<bar>)) \<le> max_str_digits)"
| "scalar v = True"

definition emits :: "string \<Rightarrow> string \<Rightarrow> yval \<Rightarrow> bool" where
  "emits line name v \<longleftrightarrow>
     (scalar v \<longrightarrow>
        line = name @ ''='' @ (if v = YNull then [] else shlex_quote (py_str v)))"

definition emits_lowered :: "string \<Rightarrow> string \<Rightarrow> yval \<Rightarrow> bool" where
  "emits_lowered line name v \<longleftrightarrow>
     (scalar v \<longrightarrow> ascii (py_str v) \<longrightarrow> line = name @ ''='' @ shlex_quote (lower (py_str v)))"

section \<open>Auxiliary facts\<close>

lemma and_then_simps [simp]:
  "and_then (Inl e) f = Inl e"
  "and_then (Inr x) f = f x"
  by (simp_all add: and_then_def)

lemma and_then_eq_Inr: "and_then m f = Inr y \<longleftrightarrow> (\<exists>x. m = Inr x \<and> f x = Inr y)"
  by (cases m) simp_all

lemma dict_get_eq_Inr: "dict_get v k d = Inr r \<Longrightarrow> \<exists>kvs. v = YMap kvs"
  by (cases v) simp_all

subsection \<open>The quoting grammar undoes \<^verbatim>\<open>shlex.quote\<close>\<close>

lemma safe_not_special:
  "safe_char c \<Longrightarrow>
     c \<noteq> nul \<and> c \<noteq> squote \<and> c \<noteq> dquote \<and> c \<noteq> backslash \<and> \<not> sh_special c"
  unfolding safe_char_def nul_def squote_def dquote_def backslash_def sh_special_def
  by auto

lemma sh_word_safe: "list_all safe_char s \<Longrightarrow> sh_word Unquoted s = Some s"
  by (induction s) (auto dest: safe_not_special)

lemma sh_word_single:
  "nul \<notin> set s \<Longrightarrow> sh_word Single (replace_squote s @ [squote]) = Some s"
  by (induction s)
    (auto simp: replace_squote_def nul_def squote_def dquote_def backslash_def)

lemma sh_word_empty_quotes: "sh_word Unquoted [squote, squote] = Some []"
  by (simp add: nul_def squote_def)

lemma squote_not_nul: "squote \<noteq> nul"
  by (simp add: squote_def nul_def)

lemma sh_word_open_quote: "sh_word Unquoted (squote # cs) = sh_word Single cs"
  by (simp add: nul_def squote_def)

lemma sh_word_shlex_quote: "nul \<notin> set s \<Longrightarrow> sh_word Unquoted (shlex_quote s) = Some s"
proof (cases "s = []")
  case True
  then show ?thesis by (simp add: shlex_quote_def sh_word_empty_quotes squote_not_nul)
next
  case False
  assume "nul \<notin> set s"
  with False show ?thesis
    by (simp add: shlex_quote_def sh_word_safe sh_word_open_quote sh_word_single
        del: sh_word.simps)
qed

lemma sh_word_nul: "nul \<in> set s \<Longrightarrow> sh_word q s = None"
proof (induction s arbitrary: q rule: length_induct)
  case (1 s)
  from "1.prems" obtain c cs where s: "s = c # cs" by (cases s) auto
  have tl: "sh_word q' cs = None" if "nul \<in> set cs" for q'
    using "1.IH" that s by simp
  show ?case
  proof (cases "c = nul")
    case True
    then show ?thesis unfolding s by (cases q) simp_all
  next
    case False
    with "1.prems" s have cs: "nul \<in> set cs" by simp
    show ?thesis
    proof (cases cs)
      case Nil
      with cs show ?thesis by simp
    next
      case (Cons d ds)
      have tl2: "sh_word q' ds = None" if "d \<noteq> nul" for q'
      proof -
        from cs Cons that have "nul \<in> set ds" by auto
        with "1.IH" s Cons show ?thesis by simp
      qed
      show ?thesis
      proof (cases "d = nul")
        case True
        then show ?thesis unfolding s Cons using False by (cases q) simp_all
      next
        case d: False
        from tl [OF cs] have t: "sh_word q' (d # ds) = None" for q'
          unfolding Cons .
        show ?thesis unfolding s Cons using False d t tl2 [OF d]
          by (cases q) simp_all
      qed
    qed
  qed
qed

subsection \<open>The shape of each part of the output\<close>

lemma job_lines_YMap:
  "job_lines i (YMap kvs) = Inr ls \<Longrightarrow>
     \<exists>v1 v2 v3 v4 v5 v6.
       ls = [''JOB_'' @ str_nat i @ ''_NAME='' @ v1,
             ''JOB_'' @ str_nat i @ ''_SCRIPT='' @ v2,
             ''JOB_'' @ str_nat i @ ''_TYPE='' @ v3,
             ''JOB_'' @ str_nat i @ ''_ARRAY='' @ v4,
             ''JOB_'' @ str_nat i @ ''_DEPENDS_ON='' @ v5,
             ''JOB_'' @ str_nat i @ ''_SBATCH_FLAGS='' @ v6]"
  unfolding job_lines_def by (auto simp: and_then_eq_Inr)

lemma job_lines_names:
  assumes "job_lines i job = Inr ls"
  shows "\<exists>v1 v2 v3 v4 v5 v6.
       ls = [''JOB_'' @ str_nat i @ ''_NAME='' @ v1,
             ''JOB_'' @ str_nat i @ ''_SCRIPT='' @ v2,
             ''JOB_'' @ str_nat i @ ''_TYPE='' @ v3,
             ''JOB_'' @ str_nat i @ ''_ARRAY='' @ v4,
             ''JOB_'' @ str_nat i @ ''_DEPENDS_ON='' @ v5,
             ''JOB_'' @ str_nat i @ ''_SBATCH_FLAGS='' @ v6]"
proof -
  from assms obtain kvs where "job = YMap kvs"
    unfolding job_lines_def by (auto simp: and_then_eq_Inr dest: dict_get_eq_Inr)
  with assms show ?thesis by (auto dest: job_lines_YMap)
qed

lemma job_lines_length: "job_lines i job = Inr ls \<Longrightarrow> length ls = 6"
  by (auto dest: job_lines_names)

lemma job_lines_prefix: "job_lines i job = Inr ls \<Longrightarrow> l \<in> set ls \<Longrightarrow> take 4 l = ''JOB_''"
  by (auto dest!: job_lines_names)

lemma jobs_loop_length: "jobs_loop i js = Inr ls \<Longrightarrow> length ls = 6 * length js"
  by (induction js arbitrary: i ls) (auto simp: and_then_eq_Inr dest: job_lines_length)

lemma jobs_loop_prefix: "jobs_loop i js = Inr ls \<Longrightarrow> l \<in> set ls \<Longrightarrow> take 4 l = ''JOB_''"
  by (induction js arbitrary: i ls) (auto simp: and_then_eq_Inr dest: job_lines_prefix)

lemma jobs_loop_block:
  "jobs_loop i js = Inr ls \<Longrightarrow> k < length js \<Longrightarrow>
     job_lines (i + k) (js ! k) = Inr (take 6 (drop (6 * k) ls))"
proof (induction js arbitrary: i ls k)
  case Nil
  then show ?case by simp
next
  case (Cons job rest)
  from Cons.prems(1) obtain b more where
    b: "job_lines i job = Inr b" and more: "jobs_loop (Suc i) rest = Inr more" and
    ls: "ls = b @ more"
    by (auto simp: and_then_eq_Inr)
  have len: "length b = 6" using b by (rule job_lines_length)
  show ?case
  proof (cases k)
    case 0
    then show ?thesis using b len ls by simp
  next
    case (Suc k')
    with Cons.prems(2) have "k' < length rest" by simp
    from Cons.IH [OF more this]
    have "job_lines (Suc i + k') (rest ! k') = Inr (take 6 (drop (6 * k') more))" .
    then show ?thesis using Suc len ls by simp
  qed
qed

lemma claude_lines_names:
  "claude_lines config = Inr cl \<Longrightarrow>
     \<exists>v1 v2 v3 v4 v5 v6 v7.
       cl = [''CLAUDE_ENABLED='' @ v1, ''CLAUDE_AUTO_FIX='' @ v2, ''CLAUDE_MAX_FIX_CYCLES='' @ v3,
             ''CLAUDE_REVIEW_MODEL='' @ v4, ''CLAUDE_FIX_MODEL='' @ v5,
             ''CLAUDE_REVIEW_BUDGET='' @ v6, ''CLAUDE_FIX_BUDGET='' @ v7]"
  unfolding claude_lines_def by (auto simp: and_then_eq_Inr)


lemma py_iter_len: "py_iter v = Inr js \<Longrightarrow> py_len v = Inr (length js)"
  by (cases v) auto

lemma jobs_lines_parts:
  assumes "jobs_lines config = Inr jl"
  shows "\<exists>jobs js ls. dict_get config ''jobs'' (YList []) = Inr jobs \<and>
        py_len jobs = Inr (length js) \<and> py_iter jobs = Inr js \<and> jobs_loop 0 js = Inr ls \<and>
        jl = (''NUM_JOBS='' @ str_nat (length js)) # ls"
proof -
  from assms obtain jobs n js ls where
    g: "dict_get config ''jobs'' (YList []) = Inr jobs" and n: "py_len jobs = Inr n" and
    js: "py_iter jobs = Inr js" and l: "jobs_loop 0 js = Inr ls" and
    jl: "jl = (''NUM_JOBS='' @ str_nat n) # ls"
    unfolding jobs_lines_def by (auto simp: and_then_eq_Inr)
  from py_iter_len [OF js] n have "n = length js" by simp
  with g n js l jl show ?thesis by blast
qed

lemma flatten_parts:
  "flatten config = Inr ls \<longleftrightarrow>
     (\<exists>pl jl cl. project_lines config = Inr pl \<and> jobs_lines config = Inr jl \<and>
        claude_lines config = Inr cl \<and> ls = pl @ jl @ cl)"
  unfolding flatten_def by (auto simp: and_then_eq_Inr)

subsection \<open>Evaluating an emitted assignment\<close>

lemma name_char_not_eq: "name_char c \<Longrightarrow> c \<noteq> CHR ''=''"
  unfolding name_char_def by auto

lemma sh_assign_line:
  assumes "sh_name n"
  shows "sh_assign (n @ CHR ''='' # v) =
           (case sh_word Unquoted v of None \<Rightarrow> None | Some x \<Rightarrow> Some (n, x))"
proof -
  have ne: "\<And>c. c \<in> set n \<Longrightarrow> c \<noteq> CHR ''=''"
    using assms by (auto simp: sh_name_def list_all_iff dest: name_char_not_eq)
  have t: "takeWhile (\<lambda>c. c \<noteq> CHR ''='') (n @ CHR ''='' # v) = n"
    using ne by simp
  have d: "dropWhile (\<lambda>c. c \<noteq> CHR ''='') (n @ CHR ''='' # v) = CHR ''='' # v"
    using ne by simp
  show ?thesis
    unfolding sh_assign_def t d Let_def using assms by (simp split: option.splits)
qed

section \<open>The escaping function\<close>

text \<open>
  C3, as the code has it. Round trip of the escaping function. For every string \<open>s\<close> without
  a NUL byte, whatever other characters it has (spaces, single and double quotes, dollar
  signs, backquotes, newlines), a shell that evaluates the assignment
  \<^verbatim>\<open>NAME=<shell_escape s>\<close> gives the variable exactly \<open>s\<close>. The value \<^verbatim>\<open>None\<close> escapes to the
  empty text, not to the text \<^verbatim>\<open>None\<close>, and the assignment then gives the variable the empty
  string.
\<close>

theorem shell_escape_round_trip:
  assumes "sh_name n" and "nul \<notin> set s"
  shows "sh_assign (n @ ''='' @ shell_escape (YStr s)) = Some (n, s) \<and>
         shell_escape YNull = [] \<and> shell_escape YNull \<noteq> ''None'' \<and>
         sh_assign (n @ ''='' @ shell_escape YNull) = Some (n, [])"
  using assms by (simp add: sh_assign_line shell_escape_def sh_word_shlex_quote)

theorem shell_escape_round_trip_witness:
  "sh_assign (''JOB_0_NAME'' @ ''='' @ shell_escape
       (YStr [CHR ''a'', CHR '' '', squote, dquote, CHR ''$'', CHR 0x60, newline, CHR ''b'']))
     = Some (''JOB_0_NAME'',
         [CHR ''a'', CHR '' '', squote, dquote, CHR ''$'', CHR 0x60, newline, CHR ''b'']) \<and>
   shell_escape (YStr [CHR ''a'', CHR '' '', squote, dquote, CHR ''$'', CHR 0x60, newline, CHR ''b''])
     = [squote, CHR ''a'', CHR '' '', squote, dquote, squote, dquote, squote, dquote,
        CHR ''$'', CHR 0x60, newline, CHR ''b'', squote] \<and>
   sh_assign (''JOB_0_NAME'' @ ''='' @ shell_escape YNull) = Some (''JOB_0_NAME'', [])"
proof -
  have n: "sh_name ''JOB_0_NAME''"
    by (simp add: sh_name_def name_char_def)
  have z: "nul \<notin> set [CHR ''a'', CHR '' '', squote, dquote, CHR ''$'', CHR 0x60, newline, CHR ''b'']"
    by (simp add: nul_def squote_def dquote_def newline_def)
  have e: "shell_escape
      (YStr [CHR ''a'', CHR '' '', squote, dquote, CHR ''$'', CHR 0x60, newline, CHR ''b''])
     = [squote, CHR ''a'', CHR '' '', squote, dquote, squote, dquote, squote, dquote,
        CHR ''$'', CHR 0x60, newline, CHR ''b'', squote]"
    by (simp add: shell_escape_def shlex_quote_def safe_char_def replace_squote_def
        squote_def dquote_def newline_def)
  from shell_escape_round_trip [OF n z] e
  show ?thesis by blast
qed

text \<open>
  The claim as written fails on a string with a NUL byte, which a YAML document can hold
  (\<^verbatim>\<open>"a\0b"\<close>): the string is put in single quotes with the byte in it, and the
  assignment does not give the variable the string.
\<close>

theorem nul_byte_counterexample:
  "shell_escape (YStr [CHR ''a'', nul, CHR ''b'']) = [squote, CHR ''a'', nul, CHR ''b'', squote] \<and>
   sh_assign (''JOB_0_NAME'' @ ''='' @ shell_escape (YStr [CHR ''a'', nul, CHR ''b''])) = None \<and>
   sh_assign (''JOB_0_NAME'' @ ''='' @ shell_escape (YStr [CHR ''a'', nul, CHR ''b'']))
     \<noteq> Some (''JOB_0_NAME'', [CHR ''a'', nul, CHR ''b''])"
proof -
  have n: "sh_name ''JOB_0_NAME''"
    by (simp add: sh_name_def name_char_def)
  have e: "shell_escape (YStr [CHR ''a'', nul, CHR ''b'']) = [squote, CHR ''a'', nul, CHR ''b'', squote]"
    by (simp add: shell_escape_def shlex_quote_def safe_char_def replace_squote_def
        squote_def nul_def)
  have w: "sh_word Unquoted [squote, CHR ''a'', nul, CHR ''b'', squote] = None"
    by (rule sh_word_nul) simp
  have "sh_assign (''JOB_0_NAME'' @ CHR ''='' # [squote, CHR ''a'', nul, CHR ''b'', squote]) = None"
    unfolding sh_assign_line [OF n] w by simp
  then have "sh_assign (''JOB_0_NAME'' @ ''='' @ [squote, CHR ''a'', nul, CHR ''b'', squote]) = None"
    by simp
  then show ?thesis
    unfolding e by simp
qed

section \<open>Auxiliary facts: running the program on a document\<close>

lemmas eval_defs =
  flatten_def project_lines_def jobs_lines_def claude_lines_def job_lines_def py_join_def
  shell_escape_def shlex_quote_def safe_char_def lower_def lower_char_def str_nat.simps
  digit_char_def replace_squote_def squote_def dquote_def str_int_def

lemma demo_doc_lines:
  "flatten demo_doc =
     Inr [''PROJECT_NAME=demo'', ''NUM_JOBS=1'', ''JOB_0_NAME=simulation'',
          ''JOB_0_SCRIPT=submit_gate.sbatch'', ''JOB_0_TYPE=sbatch'', ''JOB_0_ARRAY=1-10'',
          ''JOB_0_DEPENDS_ON='' @ [CHR 0x27, CHR 0x27],
          ''JOB_0_SBATCH_FLAGS='' @ [CHR 0x27, CHR 0x27],
          ''CLAUDE_ENABLED=false'', ''CLAUDE_AUTO_FIX=false'', ''CLAUDE_MAX_FIX_CYCLES=3'',
          ''CLAUDE_REVIEW_MODEL=sonnet'', ''CLAUDE_FIX_MODEL=opus'',
          ''CLAUDE_REVIEW_BUDGET=0.50'', ''CLAUDE_FIX_BUDGET=1.00'']"
  by (simp add: demo_doc_def eval_defs)

section \<open>Auxiliary facts: which lines assign which variable\<close>

lemma job_prefix_not_other:
  "take 4 l = ''JOB_'' \<Longrightarrow> \<not> has_name ''PROJECT_NAME'' l \<and> \<not> has_name ''NUM_JOBS'' l"
  by (cases l) (auto simp: has_name_def)

lemma jobs_lines_not_project:
  assumes "jobs_lines config = Inr jl"
  shows "filter (has_name ''PROJECT_NAME'') jl = []"
proof -
  from jobs_lines_parts [OF assms] obtain js ls where
    l: "jobs_loop 0 js = Inr ls" and jl: "jl = (''NUM_JOBS='' @ str_nat (length js)) # ls"
    by blast
  have "\<forall>x\<in>set ls. \<not> has_name ''PROJECT_NAME'' x"
    using jobs_loop_prefix [OF l] job_prefix_not_other by blast
  then have "filter (has_name ''PROJECT_NAME'') ls = []"
    by (simp add: filter_empty_conv)
  then show ?thesis using jl by (simp add: has_name_def)
qed

lemma claude_lines_not_project:
  assumes "claude_lines config = Inr cl"
  shows "filter (has_name ''PROJECT_NAME'') cl = []"
  using claude_lines_names [OF assms] by (auto simp: has_name_def)

lemma dict_get_YMap:
  "dict_get v k d = Inr r \<longleftrightarrow>
     (\<exists>kvs. v = YMap kvs \<and> r = (case map_of kvs (YStr k) of None \<Rightarrow> d | Some x \<Rightarrow> x))"
  by (cases v) auto

lemma project_lines_value:
  "project_lines (YMap kvs) = Inr pl \<Longrightarrow>
     (case map_of kvs (YStr ''project'') of
        None \<Rightarrow> pl = []
      | Some project \<Rightarrow>
          if truthy project
          then \<exists>pkvs. project = YMap pkvs \<and> pkvs \<noteq> [] \<and>
                 pl = [''PROJECT_NAME='' @
                         shell_escape (case map_of pkvs (YStr ''name'') of
                                         None \<Rightarrow> YStr [] | Some v \<Rightarrow> v)]
          else pl = [])"
  unfolding project_lines_def
  by (auto simp: and_then_eq_Inr dict_get_YMap split: option.splits if_splits)

section \<open>The project line\<close>

text \<open>
  C1, as the code has it. The \<^verbatim>\<open>PROJECT_NAME\<close> line is decided by the truth value of the
  \<^verbatim>\<open>project\<close> value, not by the presence of the key. For every document (a mapping) that
  the program flattens:
  \<^item> when the \<^verbatim>\<open>project\<close> key is absent, no line assigns \<^verbatim>\<open>PROJECT_NAME\<close>;
  \<^item> when the key is present with a false value (an empty mapping, \<^verbatim>\<open>null\<close>), no line assigns
    \<^verbatim>\<open>PROJECT_NAME\<close> either;
  \<^item> when the value is true, it is a non-empty mapping, and exactly one line assigns
    \<^verbatim>\<open>PROJECT_NAME\<close>: the first line, with the escaped \<^verbatim>\<open>name\<close> (the escape of the empty string
    when the mapping has no \<^verbatim>\<open>name\<close>).
\<close>

theorem project_name_emission:
  assumes "flatten (YMap kvs) = Inr ls"
  shows "(case map_of kvs (YStr ''project'') of
            None \<Rightarrow> filter (has_name ''PROJECT_NAME'') ls = []
          | Some project \<Rightarrow>
              if truthy project
              then \<exists>pkvs. project = YMap pkvs \<and> pkvs \<noteq> [] \<and>
                     take 1 ls = [''PROJECT_NAME='' @
                         shell_escape (case map_of pkvs (YStr ''name'') of
                                         None \<Rightarrow> YStr [] | Some v \<Rightarrow> v)] \<and>
                     filter (has_name ''PROJECT_NAME'') ls = take 1 ls
              else filter (has_name ''PROJECT_NAME'') ls = [])"
proof -
  from assms obtain pl jl cl where
    pl: "project_lines (YMap kvs) = Inr pl" and jl: "jobs_lines (YMap kvs) = Inr jl" and
    cl: "claude_lines (YMap kvs) = Inr cl" and ls: "ls = pl @ jl @ cl"
    unfolding flatten_parts by blast
  have rest: "filter (has_name ''PROJECT_NAME'') (jl @ cl) = []"
    using jobs_lines_not_project [OF jl] claude_lines_not_project [OF cl] by simp
  show ?thesis
    using project_lines_value [OF pl] rest ls
    by (auto simp: has_name_def split: option.splits if_splits)
qed

theorem project_name_emission_witness:
  "\<exists>ls. flatten demo_doc = Inr ls \<and> take 1 ls = [''PROJECT_NAME=demo''] \<and>
        filter (has_name ''PROJECT_NAME'') ls = [''PROJECT_NAME=demo'']"
  using project_name_emission [OF demo_doc_lines [unfolded demo_doc_def]] demo_doc_lines
  by (simp add: shell_escape_def shlex_quote_def safe_char_def)

text \<open>
  The claim as written fails on a document whose \<^verbatim>\<open>project\<close> section is present as an empty
  mapping: the lookup finds the section, and no \<^verbatim>\<open>PROJECT_NAME\<close> line is emitted.
\<close>

theorem project_empty_mapping_counterexample:
  "dict_get (YMap [(YStr ''project'', YMap [])]) ''project'' YNull = Inr (YMap []) \<and>
   flatten (YMap [(YStr ''project'', YMap [])]) =
     Inr [''NUM_JOBS=0'',
          ''CLAUDE_ENABLED=false'', ''CLAUDE_AUTO_FIX=false'', ''CLAUDE_MAX_FIX_CYCLES=3'',
          ''CLAUDE_REVIEW_MODEL=sonnet'', ''CLAUDE_FIX_MODEL=opus'',
          ''CLAUDE_REVIEW_BUDGET=0.50'', ''CLAUDE_FIX_BUDGET=1.00'']"
  by (simp add: eval_defs)

section \<open>Auxiliary facts: decimal numbers, joined lines and the last character\<close>

lemma digit_char_safe: "d < 10 \<Longrightarrow> digit_char d \<in> set ''0123456789''"
  unfolding digit_char_def by (simp del: set_simps)

lemma str_nat_nonempty: "str_nat n \<noteq> []"
  by (subst str_nat.simps) simp

lemma str_nat_digits: "set (str_nat n) \<subseteq> set ''0123456789''"
proof (induction n rule: str_nat.induct)
  case (1 n)
  show ?case
  proof (cases "n < 10")
    case True
    then show ?thesis using digit_char_safe [of n] by (subst str_nat.simps) simp
  next
    case False
    have "n mod 10 < 10" by simp
    from digit_char_safe [OF this] "1.IH" [OF False] False
    show ?thesis by (subst str_nat.simps) simp
  qed
qed

lemma digit_char_inj: "d < 10 \<Longrightarrow> e < 10 \<Longrightarrow> digit_char d = digit_char e \<Longrightarrow> d = e"
  unfolding digit_char_def
  by (subst (asm) nth_eq_iff_index_eq) simp_all

lemma str_nat_inj: "str_nat m = str_nat n \<Longrightarrow> m = n"
proof (induction m arbitrary: n rule: str_nat.induct)
  case (1 m)
  show ?case
  proof (cases "m < 10")
    case m: True
    show ?thesis
    proof (cases "n < 10")
      case True
      with m "1.prems" show ?thesis
        by (simp add: str_nat.simps [of m] str_nat.simps [of n] digit_char_inj)
    next
      case False
      with m "1.prems" show ?thesis
        using str_nat_nonempty [of "n div 10"]
        by (simp add: str_nat.simps [of m] str_nat.simps [of n])
    qed
  next
    case m: False
    show ?thesis
    proof (cases "n < 10")
      case True
      with m "1.prems" show ?thesis
        using str_nat_nonempty [of "m div 10"]
        by (simp add: str_nat.simps [of m] str_nat.simps [of n])
    next
      case False
      with m "1.prems" have a: "str_nat (m div 10) = str_nat (n div 10)"
        and b: "digit_char (m mod 10) = digit_char (n mod 10)"
        by (simp_all add: str_nat.simps [of m] str_nat.simps [of n])
      from "1.IH" [OF m a] have "m div 10 = n div 10" .
      moreover from b have "m mod 10 = n mod 10" by (intro digit_char_inj) simp_all
      ultimately show ?thesis by (metis div_mult_mod_eq)
    qed
  qed
qed






section \<open>Auxiliary facts: the whole list of lines\<close>

lemma flatten_shape:
  assumes "flatten config = Inr ls"
  shows "\<exists>jobs js pl jl cl.
     dict_get config ''jobs'' (YList []) = Inr jobs \<and> py_len jobs = Inr (length js) \<and>
     py_iter jobs = Inr js \<and>
     project_lines config = Inr pl \<and> jobs_loop 0 js = Inr jl \<and> claude_lines config = Inr cl \<and>
     ls = pl @ [''NUM_JOBS='' @ str_nat (length js)] @ jl @ cl"
proof -
  from assms obtain pl jl' cl where
    pl: "project_lines config = Inr pl" and jl': "jobs_lines config = Inr jl'" and
    cl: "claude_lines config = Inr cl" and ls: "ls = pl @ jl' @ cl"
    unfolding flatten_parts by blast
  from jobs_lines_parts [OF jl'] obtain jobs js jl where
    "dict_get config ''jobs'' (YList []) = Inr jobs" "py_len jobs = Inr (length js)"
    "py_iter jobs = Inr js" "jobs_loop 0 js = Inr jl"
    "jl' = (''NUM_JOBS='' @ str_nat (length js)) # jl"
    by blast
  with pl cl ls show ?thesis by simp
qed



section \<open>Auxiliary facts: the example documents, flattened\<close>

lemma docstring_doc_lines:
  "flatten docstring_doc =
     Inr [''NUM_JOBS=2'',
          ''JOB_0_NAME=simulation'', ''JOB_0_SCRIPT=submit_gate.sbatch'', ''JOB_0_TYPE=sbatch'',
          ''JOB_0_ARRAY=1-10'', ''JOB_0_DEPENDS_ON='' @ [CHR 0x27, CHR 0x27],
          ''JOB_0_SBATCH_FLAGS='' @ [CHR 0x27, CHR 0x27],
          ''JOB_1_NAME=merge_results'', ''JOB_1_SCRIPT=merge_results.sbatch'',
          ''JOB_1_TYPE=sbatch'', ''JOB_1_ARRAY='' @ [CHR 0x27, CHR 0x27],
          ''JOB_1_DEPENDS_ON=simulation'', ''JOB_1_SBATCH_FLAGS='' @ [CHR 0x27, CHR 0x27],
          ''CLAUDE_ENABLED=true'', ''CLAUDE_AUTO_FIX=true'', ''CLAUDE_MAX_FIX_CYCLES=3'',
          ''CLAUDE_REVIEW_MODEL=sonnet'', ''CLAUDE_FIX_MODEL=opus'',
          ''CLAUDE_REVIEW_BUDGET=0.5'', ''CLAUDE_FIX_BUDGET=1.0'']"
  by (simp add: docstring_doc_def eval_defs)

lemma demo_world_output:
  "parse_cluster_yaml demo_world ''cluster.yaml'' =
     Inr (join [CHR 0x0A]
       [''PROJECT_NAME=demo'', ''NUM_JOBS=1'', ''JOB_0_NAME=simulation'',
        ''JOB_0_SCRIPT=submit_gate.sbatch'', ''JOB_0_TYPE=sbatch'', ''JOB_0_ARRAY=1-10'',
        ''JOB_0_DEPENDS_ON='' @ [CHR 0x27, CHR 0x27],
        ''JOB_0_SBATCH_FLAGS='' @ [CHR 0x27, CHR 0x27],
        ''CLAUDE_ENABLED=false'', ''CLAUDE_AUTO_FIX=false'', ''CLAUDE_MAX_FIX_CYCLES=3'',
        ''CLAUDE_REVIEW_MODEL=sonnet'', ''CLAUDE_FIX_MODEL=opus'',
        ''CLAUDE_REVIEW_BUDGET=0.50'', ''CLAUDE_FIX_BUDGET=1.00''])"
  unfolding parse_cluster_yaml_def demo_world_def by (simp add: demo_doc_lines)

lemma accent_output:
  "parse_cluster_yaml ascii_stdout_world ''cluster.yaml'' = Inr accent_output"
  unfolding parse_cluster_yaml_def ascii_stdout_world_def accent_output_def accent_doc_def
  by (simp add: eval_defs)

section \<open>The shape of the output\<close>



section \<open>Jobs keep their positions\<close>

text \<open>
  C5. Index order. In the lines of a flattened document, the six lines that follow the
  project lines, the \<^verbatim>\<open>NUM_JOBS\<close> line and the lines of the \<open>i\<close> jobs before it are exactly the
  lines the loop body makes from the job at position \<open>i\<close> with index \<open>i\<close>; their names carry
  the decimal text of \<open>i\<close>, which no other index shares; and there are six lines for every
  job of the sequence, so no job is dropped, repeated or moved.
\<close>

theorem job_index_is_position:
  assumes "flatten config = Inr ls" and "dict_get config ''jobs'' (YList []) = Inr jobs"
    and "py_iter jobs = Inr js" and "i < length js"
  shows "\<exists>pl. project_lines config = Inr pl \<and>
           length ls = length pl + 1 + 6 * length js + 7 \<and>
           job_lines i (js ! i) = Inr (take 6 (drop (length pl + 1 + 6 * i) ls)) \<and>
           (\<exists>v1 v2 v3 v4 v5 v6.
              take 6 (drop (length pl + 1 + 6 * i) ls) =
                [''JOB_'' @ str_nat i @ ''_NAME='' @ v1,
                 ''JOB_'' @ str_nat i @ ''_SCRIPT='' @ v2,
                 ''JOB_'' @ str_nat i @ ''_TYPE='' @ v3,
                 ''JOB_'' @ str_nat i @ ''_ARRAY='' @ v4,
                 ''JOB_'' @ str_nat i @ ''_DEPENDS_ON='' @ v5,
                 ''JOB_'' @ str_nat i @ ''_SBATCH_FLAGS='' @ v6]) \<and>
           (\<forall>j. str_nat j = str_nat i \<longrightarrow> j = i)"
proof -
  from flatten_shape [OF assms(1)] assms(2,3) obtain pl jl cl where
    pl: "project_lines config = Inr pl" and jl: "jobs_loop 0 js = Inr jl" and
    cl: "claude_lines config = Inr cl" and
    ls: "ls = pl @ [''NUM_JOBS='' @ str_nat (length js)] @ jl @ cl"
    by auto
  have ljl: "length jl = 6 * length js" using jl by (rule jobs_loop_length)
  have lcl: "length cl = 7" using claude_lines_names [OF cl] by auto
  have len: "length ls = length pl + 1 + 6 * length js + 7"
    unfolding ls using ljl lcl by simp
  have "6 * i + 6 \<le> length jl" using assms(4) ljl by simp
  then have blk: "take 6 (drop (length pl + 1 + 6 * i) ls) = take 6 (drop (6 * i) jl)"
    unfolding ls by simp
  from jobs_loop_block [OF jl assms(4)]
  have b: "job_lines i (js ! i) = Inr (take 6 (drop (length pl + 1 + 6 * i) ls))"
    unfolding blk by simp
  show ?thesis
    using pl len b job_lines_names [OF b] str_nat_inj by blast
qed

theorem job_index_is_position_witness:
  "job_lines 1 (YMap [(YStr ''name'', YStr ''merge_results''),
                      (YStr ''script'', YStr ''merge_results.sbatch''),
                      (YStr ''depends_on'', YStr ''simulation'')]) =
     Inr [''JOB_1_NAME=merge_results'', ''JOB_1_SCRIPT=merge_results.sbatch'',
          ''JOB_1_TYPE=sbatch'', ''JOB_1_ARRAY='' @ [CHR 0x27, CHR 0x27],
          ''JOB_1_DEPENDS_ON=simulation'', ''JOB_1_SBATCH_FLAGS='' @ [CHR 0x27, CHR 0x27]]"
proof -
  have g: "dict_get docstring_doc ''jobs'' (YList []) =
      Inr (YList [YMap [(YStr ''name'', YStr ''simulation''),
                        (YStr ''script'', YStr ''submit_gate.sbatch''),
                        (YStr ''array'', YStr ''1-10'')],
                  YMap [(YStr ''name'', YStr ''merge_results''),
                        (YStr ''script'', YStr ''merge_results.sbatch''),
                        (YStr ''depends_on'', YStr ''simulation'')]])"
    by (simp add: docstring_doc_def)
  have p: "project_lines docstring_doc = Inr []"
    by (simp add: docstring_doc_def project_lines_def)
  from job_index_is_position [OF docstring_doc_lines g, of _ 1] p
  show ?thesis by simp
qed

section \<open>Auxiliary facts: the loop body on a mapping\<close>

lemma str_items_strings: "str_items (map YStr ds) = Inr ds"
  by (induction ds) simp_all

lemma name_char_digit: "c \<in> set ''0123456789'' \<Longrightarrow> name_char c"
  unfolding name_char_def by auto

lemma job_variable_name:
  assumes "list_all name_char suffix"
  shows "sh_name (''JOB_'' @ str_nat i @ suffix)"
proof -
  have "list_all name_char (str_nat i)"
    using str_nat_digits [of i] name_char_digit unfolding list_all_iff by blast
  with assms show ?thesis
    by (simp add: sh_name_def name_char_def)
qed

lemma job_lines_depends:
  "job_lines i (YMap kvs) = Inr ls \<Longrightarrow>
   d = (case map_of kvs (YStr ''depends_on'') of None \<Rightarrow> YList [] | Some v \<Rightarrow> v) \<Longrightarrow>
     \<exists>joined. py_join '','' (if isinstance_str d then YList [d] else d) = Inr joined \<and>
       ls ! 4 = ''JOB_'' @ str_nat i @ ''_DEPENDS_ON='' @ shell_escape (YStr joined)"
  unfolding job_lines_def by (auto simp: and_then_eq_Inr)

lemma job_lines_total:
  assumes "d = (case map_of kvs (YStr ''depends_on'') of None \<Rightarrow> YList [] | Some v \<Rightarrow> v)"
    and "py_join '','' (if isinstance_str d then YList [d] else d) = Inr joined"
  shows "\<exists>ls. job_lines i (YMap kvs) = Inr ls"
  unfolding job_lines_def using assms(2) unfolding assms(1) by simp

lemma job_lines_cong:
  "map_of kvs' = (map_of kvs)(YStr ''depends_on'' \<mapsto> d') \<Longrightarrow>
   map_of kvs (YStr ''depends_on'') = Some d \<Longrightarrow>
   (if isinstance_str d' then YList [d'] else d') = (if isinstance_str d then YList [d] else d) \<Longrightarrow>
   job_lines i (YMap kvs') = job_lines i (YMap kvs)"
  unfolding job_lines_def by simp

section \<open>Dependencies\<close>

text \<open>
  C6. Normalisation of \<^verbatim>\<open>depends_on\<close>, for a job that is a mapping and any index \<open>i\<close>:
  \<^item> without the key, the loop body succeeds and its fifth line is \<^verbatim>\<open>JOB_i_DEPENDS_ON=''\<close>, the
    escape of the empty string, which gives the variable the empty value;
  \<^item> with a single string as the value, the loop body gives exactly what it gives for the same
    job with the one-element sequence of that string;
  \<^item> with a sequence of strings as the value, the loop body succeeds and the fifth line is
    \<^verbatim>\<open>JOB_i_DEPENDS_ON=\<close> followed by the escape of the elements joined by commas, in order.
\<close>

theorem depends_on_normalised:
  "(map_of kvs (YStr ''depends_on'') = None \<longrightarrow>
      (\<exists>ls. job_lines i (YMap kvs) = Inr ls \<and>
            ls ! 4 = ''JOB_'' @ str_nat i @ ''_DEPENDS_ON'' @ ''='' @ [squote, squote] \<and>
            sh_assign (ls ! 4) = Some (''JOB_'' @ str_nat i @ ''_DEPENDS_ON'', []))) \<and>
   (map_of kvs (YStr ''depends_on'') = Some (YStr s) \<longrightarrow>
    map_of kvs' = (map_of kvs)(YStr ''depends_on'' \<mapsto> YList [YStr s]) \<longrightarrow>
      job_lines i (YMap kvs') = job_lines i (YMap kvs)) \<and>
   (map_of kvs (YStr ''depends_on'') = Some (YList (map YStr ds)) \<longrightarrow>
      (\<exists>ls. job_lines i (YMap kvs) = Inr ls \<and>
            ls ! 4 = ''JOB_'' @ str_nat i @ ''_DEPENDS_ON'' @ ''='' @
                       shell_escape (YStr (join '','' ds))))"
proof (intro conjI impI)
  assume a: "map_of kvs (YStr ''depends_on'') = None"
  then obtain ls where ls: "job_lines i (YMap kvs) = Inr ls"
    using job_lines_total [of "YList []" kvs "[]" i] by (auto simp: py_join_def)
  from job_lines_depends [OF ls refl] a
  have l4: "ls ! 4 = ''JOB_'' @ str_nat i @ ''_DEPENDS_ON'' @ ''='' @ [squote, squote]"
    by (simp add: py_join_def shell_escape_def shlex_quote_def)
  have n: "sh_name (''JOB_'' @ str_nat i @ ''_DEPENDS_ON'')"
    by (rule job_variable_name) (simp add: name_char_def)
  have "sh_assign ((''JOB_'' @ str_nat i @ ''_DEPENDS_ON'') @ CHR ''='' # [squote, squote])
          = Some (''JOB_'' @ str_nat i @ ''_DEPENDS_ON'', [])"
    unfolding sh_assign_line [OF n] sh_word_empty_quotes by simp
  then have "sh_assign (ls ! 4) = Some (''JOB_'' @ str_nat i @ ''_DEPENDS_ON'', [])"
    unfolding l4 by simp
  with ls l4 show "\<exists>ls. job_lines i (YMap kvs) = Inr ls \<and>
            ls ! 4 = ''JOB_'' @ str_nat i @ ''_DEPENDS_ON'' @ ''='' @ [squote, squote] \<and>
            sh_assign (ls ! 4) = Some (''JOB_'' @ str_nat i @ ''_DEPENDS_ON'', [])"
    by blast
next
  assume "map_of kvs (YStr ''depends_on'') = Some (YStr s)"
    and "map_of kvs' = (map_of kvs)(YStr ''depends_on'' \<mapsto> YList [YStr s])"
  then show "job_lines i (YMap kvs') = job_lines i (YMap kvs)"
    by (intro job_lines_cong [where d = "YStr s" and d' = "YList [YStr s]"]) simp_all
next
  assume a: "map_of kvs (YStr ''depends_on'') = Some (YList (map YStr ds))"
  then obtain ls where ls: "job_lines i (YMap kvs) = Inr ls"
    using job_lines_total [of "YList (map YStr ds)" kvs "join '','' ds" i]
    by (auto simp: py_join_def str_items_strings)
  from job_lines_depends [OF ls refl] a
  have "ls ! 4 = ''JOB_'' @ str_nat i @ ''_DEPENDS_ON'' @ ''='' @ shell_escape (YStr (join '','' ds))"
    by (simp add: py_join_def str_items_strings)
  with ls show "\<exists>ls. job_lines i (YMap kvs) = Inr ls \<and>
            ls ! 4 = ''JOB_'' @ str_nat i @ ''_DEPENDS_ON'' @ ''='' @
                       shell_escape (YStr (join '','' ds))"
    by blast
qed


theorem depends_on_normalised_witness:
  "job_lines 1 (YMap [(YStr ''depends_on'', YList [YStr ''simulation'']), (YStr ''name'', YStr ''merge'')])
     = job_lines 1 (YMap [(YStr ''depends_on'', YStr ''simulation''), (YStr ''name'', YStr ''merge'')]) \<and>
   (\<exists>ls. job_lines 0 (YMap [(YStr ''name'', YStr ''a'')]) = Inr ls \<and>
         ls ! 4 = ''JOB_0_DEPENDS_ON='' @ [squote, squote] \<and>
         sh_assign (ls ! 4) = Some (''JOB_0_DEPENDS_ON'', [])) \<and>
   (\<exists>ls. job_lines 2 (YMap [(YStr ''depends_on'', YList [YStr ''a'', YStr ''b''])]) = Inr ls \<and>
         ls ! 4 = ''JOB_2_DEPENDS_ON=a,b'')"
proof -
  have s0: "str_nat 0 = ''0''" and s2: "str_nat 2 = ''2''"
    by (simp_all add: str_nat.simps digit_char_def)
  have e: "shell_escape (YStr ''a,b'') = ''a,b''"
    by (simp add: shell_escape_def shlex_quote_def safe_char_def)
  from depends_on_normalised
    [of "[(YStr ''depends_on'', YStr ''simulation''), (YStr ''name'', YStr ''merge'')]" 1
        "''simulation''"
        "[(YStr ''depends_on'', YList [YStr ''simulation'']), (YStr ''name'', YStr ''merge'')]"]
  have 1: "job_lines 1 (YMap [(YStr ''depends_on'', YList [YStr ''simulation'']), (YStr ''name'', YStr ''merge'')])
     = job_lines 1 (YMap [(YStr ''depends_on'', YStr ''simulation''), (YStr ''name'', YStr ''merge'')])"
    by simp
  from depends_on_normalised [of "[(YStr ''name'', YStr ''a'')]" 0]
  have 2: "\<exists>ls. job_lines 0 (YMap [(YStr ''name'', YStr ''a'')]) = Inr ls \<and>
         ls ! 4 = ''JOB_0_DEPENDS_ON='' @ [squote, squote] \<and>
         sh_assign (ls ! 4) = Some (''JOB_0_DEPENDS_ON'', [])"
    by (simp add: s0)
  from depends_on_normalised
    [of "[(YStr ''depends_on'', YList [YStr ''a'', YStr ''b''])]" 2 _ _ "[''a'', ''b'']"]
  have 3: "\<exists>ls. job_lines 2 (YMap [(YStr ''depends_on'', YList [YStr ''a'', YStr ''b''])]) = Inr ls \<and>
         ls ! 4 = ''JOB_2_DEPENDS_ON=a,b''"
    by (simp add: s2 e)
  from 1 2 3 show ?thesis by blast
qed

section \<open>Auxiliary facts: the \<^verbatim>\<open>claude\<close> lines and plain tokens\<close>

lemma claude_lines_value:
  assumes "dict_get (YMap kvs) ''claude'' (YMap []) = Inr (YMap ckvs)"
  shows "claude_lines (YMap kvs) =
     Inr [''CLAUDE_ENABLED='' @ shell_escape (YStr (lower (py_str
             (case map_of ckvs (YStr ''enabled'') of None \<Rightarrow> YBool False | Some v \<Rightarrow> v)))),
          ''CLAUDE_AUTO_FIX='' @ shell_escape (YStr (lower (py_str
             (case map_of ckvs (YStr ''auto_fix'') of None \<Rightarrow> YBool False | Some v \<Rightarrow> v)))),
          ''CLAUDE_MAX_FIX_CYCLES='' @ shell_escape
             (case map_of ckvs (YStr ''max_fix_cycles'') of None \<Rightarrow> YInt 3 | Some v \<Rightarrow> v),
          ''CLAUDE_REVIEW_MODEL='' @ shell_escape
             (case map_of ckvs (YStr ''review_model'') of None \<Rightarrow> YStr ''sonnet'' | Some v \<Rightarrow> v),
          ''CLAUDE_FIX_MODEL='' @ shell_escape
             (case map_of ckvs (YStr ''fix_model'') of None \<Rightarrow> YStr ''opus'' | Some v \<Rightarrow> v),
          ''CLAUDE_REVIEW_BUDGET='' @ shell_escape
             (case map_of ckvs (YStr ''review_budget'') of None \<Rightarrow> YStr ''0.50'' | Some v \<Rightarrow> v),
          ''CLAUDE_FIX_BUDGET='' @ shell_escape
             (case map_of ckvs (YStr ''fix_budget'') of None \<Rightarrow> YStr ''1.00'' | Some v \<Rightarrow> v)]"
  unfolding claude_lines_def assms by simp

lemma flatten_claude_end:
  assumes "flatten config = Inr ls"
  shows "\<exists>cl. claude_lines config = Inr cl \<and> length cl = 7 \<and> 7 \<le> length ls \<and>
           drop (length ls - 7) ls = cl"
proof -
  from flatten_shape [OF assms] obtain pl n jl cl where
    cl: "claude_lines config = Inr cl" and ls: "ls = pl @ [''NUM_JOBS='' @ n] @ jl @ cl"
    by blast
  have "length cl = 7" using claude_lines_names [OF cl] by auto
  with cl ls show ?thesis by simp
qed

lemma shell_escape_plain:
  "s \<noteq> [] \<Longrightarrow> list_all safe_char s \<Longrightarrow> shell_escape (YStr s) = s"
  by (simp add: shell_escape_def shlex_quote_def)

lemma default_tokens:
  "shell_escape (YStr (lower (py_str (YBool b)))) = (if b then ''true'' else ''false'')"
  "shell_escape (YStr ''sonnet'') = ''sonnet''"
  "shell_escape (YStr ''opus'') = ''opus''"
  "shell_escape (YStr ''0.50'') = ''0.50''"
  "shell_escape (YStr ''1.00'') = ''1.00''"
  by (simp_all add: shell_escape_plain safe_char_def lower_def lower_char_def)

lemma safe_char_digit: "c \<in> set ''0123456789-'' \<Longrightarrow> safe_char c"
  unfolding safe_char_def by auto

lemma shell_escape_int: "shell_escape (YInt i) = str_int i"
proof -
  have d: "list_all safe_char (str_nat n)" for n
    using str_nat_digits [of n] safe_char_digit unfolding list_all_iff by auto
  have "str_int i \<noteq> []" "list_all safe_char (str_int i)"
    using str_nat_nonempty d by (auto simp: str_int_def safe_char_def)
  then show ?thesis by (simp add: shell_escape_def shlex_quote_def)
qed

lemma str_int_3: "str_int 3 = ''3''"
  by (simp add: str_int_def str_nat.simps digit_char_def)

lemma bool_tokens:
  "shell_escape (YStr (lower ''True'')) = ''true''"
  "shell_escape (YStr (lower ''False'')) = ''false''"
  by (simp_all add: shell_escape_plain safe_char_def lower_def lower_char_def)

section \<open>The automation-assistant lines\<close>

text \<open>
  C7. For every document (a mapping) without a \<^verbatim>\<open>claude\<close> section, the \<^verbatim>\<open>claude\<close> part of the
  program yields the seven lines with the documented defaults, and they are the last seven
  lines of every flattened document of this kind. A boolean is rendered as the lowercase
  text \<^verbatim>\<open>true\<close> or \<^verbatim>\<open>false\<close> before escaping, so a boolean \<^verbatim>\<open>enabled\<close> or \<^verbatim>\<open>auto_fix\<close> gives
  the line \<^verbatim>\<open>CLAUDE_ENABLED=true\<close> (or \<^verbatim>\<open>false\<close>), and likewise \<^verbatim>\<open>CLAUDE_AUTO_FIX\<close>.
\<close>

theorem claude_defaults:
  "(map_of kvs (YStr ''claude'') = None \<longrightarrow>
      claude_lines (YMap kvs) =
        Inr [''CLAUDE_ENABLED=false'', ''CLAUDE_AUTO_FIX=false'', ''CLAUDE_MAX_FIX_CYCLES=3'',
             ''CLAUDE_REVIEW_MODEL=sonnet'', ''CLAUDE_FIX_MODEL=opus'',
             ''CLAUDE_REVIEW_BUDGET=0.50'', ''CLAUDE_FIX_BUDGET=1.00''] \<and>
      (\<forall>ls. flatten (YMap kvs) = Inr ls \<longrightarrow>
         drop (length ls - 7) ls =
           [''CLAUDE_ENABLED=false'', ''CLAUDE_AUTO_FIX=false'', ''CLAUDE_MAX_FIX_CYCLES=3'',
            ''CLAUDE_REVIEW_MODEL=sonnet'', ''CLAUDE_FIX_MODEL=opus'',
            ''CLAUDE_REVIEW_BUDGET=0.50'', ''CLAUDE_FIX_BUDGET=1.00''])) \<and>
   lower (py_str (YBool b)) = (if b then ''true'' else ''false'') \<and>
   (map_of kvs (YStr ''claude'') = Some (YMap ckvs) \<longrightarrow>
    map_of ckvs (YStr ''enabled'') = Some (YBool b) \<longrightarrow>
      (\<exists>cl. claude_lines (YMap kvs) = Inr cl \<and>
            cl ! 0 = ''CLAUDE_ENABLED='' @ (if b then ''true'' else ''false''))) \<and>
   (map_of kvs (YStr ''claude'') = Some (YMap ckvs) \<longrightarrow>
    map_of ckvs (YStr ''auto_fix'') = Some (YBool b) \<longrightarrow>
      (\<exists>cl. claude_lines (YMap kvs) = Inr cl \<and>
            cl ! 1 = ''CLAUDE_AUTO_FIX='' @ (if b then ''true'' else ''false'')))"
proof (intro conjI impI allI)
  assume a: "map_of kvs (YStr ''claude'') = None"
  then have g: "dict_get (YMap kvs) ''claude'' (YMap []) = Inr (YMap [])" by simp
  show d: "claude_lines (YMap kvs) =
        Inr [''CLAUDE_ENABLED=false'', ''CLAUDE_AUTO_FIX=false'', ''CLAUDE_MAX_FIX_CYCLES=3'',
             ''CLAUDE_REVIEW_MODEL=sonnet'', ''CLAUDE_FIX_MODEL=opus'',
             ''CLAUDE_REVIEW_BUDGET=0.50'', ''CLAUDE_FIX_BUDGET=1.00'']"
    unfolding claude_lines_value [OF g]
    by (simp add: default_tokens bool_tokens shell_escape_int str_int_3)
  fix ls assume "flatten (YMap kvs) = Inr ls"
  from flatten_claude_end [OF this] d
  show "drop (length ls - 7) ls =
           [''CLAUDE_ENABLED=false'', ''CLAUDE_AUTO_FIX=false'', ''CLAUDE_MAX_FIX_CYCLES=3'',
            ''CLAUDE_REVIEW_MODEL=sonnet'', ''CLAUDE_FIX_MODEL=opus'',
            ''CLAUDE_REVIEW_BUDGET=0.50'', ''CLAUDE_FIX_BUDGET=1.00'']"
    by auto
next
  show "lower (py_str (YBool b)) = (if b then ''true'' else ''false'')"
    by (simp add: lower_def lower_char_def)
next
  assume a: "map_of kvs (YStr ''claude'') = Some (YMap ckvs)"
    and e: "map_of ckvs (YStr ''enabled'') = Some (YBool b)"
  from a have g: "dict_get (YMap kvs) ''claude'' (YMap []) = Inr (YMap ckvs)" by simp
  show "\<exists>cl. claude_lines (YMap kvs) = Inr cl \<and>
            cl ! 0 = ''CLAUDE_ENABLED='' @ (if b then ''true'' else ''false'')"
    unfolding claude_lines_value [OF g] using e by (simp add: bool_tokens)
next
  assume a: "map_of kvs (YStr ''claude'') = Some (YMap ckvs)"
    and e: "map_of ckvs (YStr ''auto_fix'') = Some (YBool b)"
  from a have g: "dict_get (YMap kvs) ''claude'' (YMap []) = Inr (YMap ckvs)" by simp
  show "\<exists>cl. claude_lines (YMap kvs) = Inr cl \<and>
            cl ! 1 = ''CLAUDE_AUTO_FIX='' @ (if b then ''true'' else ''false'')"
    unfolding claude_lines_value [OF g] using e by (simp add: bool_tokens)
qed

theorem claude_defaults_witness:
  "claude_lines demo_doc =
        Inr [''CLAUDE_ENABLED=false'', ''CLAUDE_AUTO_FIX=false'', ''CLAUDE_MAX_FIX_CYCLES=3'',
             ''CLAUDE_REVIEW_MODEL=sonnet'', ''CLAUDE_FIX_MODEL=opus'',
             ''CLAUDE_REVIEW_BUDGET=0.50'', ''CLAUDE_FIX_BUDGET=1.00''] \<and>
   (\<exists>cl. claude_lines docstring_doc = Inr cl \<and> cl ! 0 = ''CLAUDE_ENABLED=true'' \<and>
         cl ! 1 = ''CLAUDE_AUTO_FIX=true'')"
proof -
  from claude_defaults [of "[(YStr ''project'', YMap [(YStr ''name'', YStr ''demo'')]),
           (YStr ''jobs'',
            YList [YMap [(YStr ''name'', YStr ''simulation''),
                         (YStr ''script'', YStr ''submit_gate.sbatch''),
                         (YStr ''array'', YStr ''1-10'')]])]"]
  have 1: "claude_lines demo_doc =
        Inr [''CLAUDE_ENABLED=false'', ''CLAUDE_AUTO_FIX=false'', ''CLAUDE_MAX_FIX_CYCLES=3'',
             ''CLAUDE_REVIEW_MODEL=sonnet'', ''CLAUDE_FIX_MODEL=opus'',
             ''CLAUDE_REVIEW_BUDGET=0.50'', ''CLAUDE_FIX_BUDGET=1.00'']"
    unfolding demo_doc_def by simp
  have 2: "\<exists>cl. claude_lines docstring_doc = Inr cl \<and> cl ! 0 = ''CLAUDE_ENABLED=true'' \<and>
         cl ! 1 = ''CLAUDE_AUTO_FIX=true''"
    by (simp add: docstring_doc_def claude_lines_def bool_tokens)
  from 1 2 show ?thesis by blast
qed

lemma nth_from_end:
  "drop (length ls - 7) ls = cl \<Longrightarrow> length cl = 7 \<Longrightarrow> 7 \<le> length ls \<Longrightarrow> k < 7 \<Longrightarrow>
     ls ! (length ls - 7 + k) = cl ! k"
  by (auto simp: ac_simps)

section \<open>Auxiliary facts: which exceptions can be raised, and what the main block does with them\<close>

lemma and_then_eq_Inl:
  "and_then m f = Inl e \<longleftrightarrow> m = Inl e \<or> (\<exists>x. m = Inr x \<and> f x = Inl e)"
  by (cases m) simp_all

lemma dict_get_Inl: "dict_get v k d = Inl e \<Longrightarrow> e = AttributeError"
  by (cases v) simp_all

lemma dict_get_not_mapping: "\<forall>kvs. v \<noteq> YMap kvs \<Longrightarrow> dict_get v k d = Inl AttributeError"
  by (cases v) simp_all

lemma py_len_Inl: "py_len v = Inl e \<Longrightarrow> e = TypeError"
  by (cases v) simp_all

lemma py_iter_Inl: "py_iter v = Inl e \<Longrightarrow> e = TypeError"
  by (cases v) simp_all

lemma str_items_Inl: "str_items vs = Inl e \<Longrightarrow> e = TypeError"
  by (induction vs rule: str_items.induct) (auto simp: and_then_eq_Inl)

lemma py_join_Inl: "py_join sep v = Inl e \<Longrightarrow> e = TypeError"
  unfolding py_join_def by (auto simp: and_then_eq_Inl dest: py_iter_Inl str_items_Inl)

lemma job_lines_Inl: "job_lines i job = Inl e \<Longrightarrow> raised_by_flatten e"
  unfolding job_lines_def raised_by_flatten_def
  by (auto simp: and_then_eq_Inl dest: dict_get_Inl py_join_Inl)

lemma jobs_loop_Inl: "jobs_loop i js = Inl e \<Longrightarrow> raised_by_flatten e"
  by (induction js arbitrary: i) (auto simp: and_then_eq_Inl dest: job_lines_Inl)

lemma project_lines_Inl: "project_lines config = Inl e \<Longrightarrow> raised_by_flatten e"
  unfolding project_lines_def raised_by_flatten_def
  by (auto simp: and_then_eq_Inl dest: dict_get_Inl split: if_splits)

lemma jobs_lines_Inl: "jobs_lines config = Inl e \<Longrightarrow> raised_by_flatten e"
  unfolding jobs_lines_def
  by (auto simp: and_then_eq_Inl raised_by_flatten_def
      dest: dict_get_Inl py_len_Inl py_iter_Inl jobs_loop_Inl [unfolded raised_by_flatten_def])

lemma claude_lines_Inl: "claude_lines config = Inl e \<Longrightarrow> raised_by_flatten e"
  unfolding claude_lines_def raised_by_flatten_def
  by (auto simp: and_then_eq_Inl dest: dict_get_Inl)

lemma flatten_Inl: "flatten config = Inl e \<Longrightarrow> raised_by_flatten e"
  unfolding flatten_def
  by (auto simp: and_then_eq_Inl dest: project_lines_Inl jobs_lines_Inl claude_lines_Inl)

lemma parse_yaml_error:
  "parse_cluster_yaml w path = Inl (YAMLError msg) \<longleftrightarrow>
     (\<exists>body. open_file w path = Content body \<and> safe_load w body = Malformed msg)"
  unfolding parse_cluster_yaml_def
  by (auto simp: and_then_eq_Inl raised_by_flatten_def
      split: open_result.splits load_result.splits dest!: flatten_Inl)

lemma parse_not_found:
  "parse_cluster_yaml w path = Inl FileNotFoundError \<longleftrightarrow> open_file w path = NoSuchFile"
  unfolding parse_cluster_yaml_def
  by (auto simp: and_then_eq_Inl raised_by_flatten_def
      split: open_result.splits load_result.splits dest!: flatten_Inl)

lemma main_two_args:
  "main w [prog, path] =
     (case parse_cluster_yaml w path of
        Inr output \<Rightarrow>
          if stdout_encodes w (output @ [newline])
          then Inr \<lparr>stdout = output @ [newline], stderr = [], exit_status = 0\<rparr>
          else Inl UnicodeEncodeError
      | Inl FileNotFoundError \<Rightarrow>
          Inr \<lparr>stdout = [], stderr = ''Error: '' @ path @ '' not found'' @ [newline],
               exit_status = 1\<rparr>
      | Inl (YAMLError msg) \<Rightarrow>
          Inr \<lparr>stdout = [], stderr = ''Error parsing YAML: '' @ msg @ [newline],
               exit_status = 1\<rparr>
      | Inl e \<Rightarrow> Inl e)"
  unfolding main_def newline_def by (simp split: sum.splits py_exc.splits)

lemma main_Inr_cases:
  assumes "main w [prog, path] = Inr r"
  shows "(\<exists>out. parse_cluster_yaml w path = Inr out \<and> stdout_encodes w (out @ [newline]) \<and>
            r = \<lparr>stdout = out @ [newline], stderr = [], exit_status = 0\<rparr>) \<or>
         (parse_cluster_yaml w path = Inl FileNotFoundError \<and>
            r = \<lparr>stdout = [], stderr = ''Error: '' @ path @ '' not found'' @ [newline],
                 exit_status = 1\<rparr>) \<or>
         (\<exists>msg. parse_cluster_yaml w path = Inl (YAMLError msg) \<and>
            r = \<lparr>stdout = [], stderr = ''Error parsing YAML: '' @ msg @ [newline],
                 exit_status = 1\<rparr>)"
proof (cases "parse_cluster_yaml w path")
  case (Inr out)
  with assms show ?thesis by (simp add: main_two_args split: if_splits)
next
  case (Inl e)
  with assms show ?thesis by (cases e) (simp_all add: main_two_args)
qed

section \<open>The command\<close>

text \<open>
  C8. The command, run with one argument:
  \<^item> on success, that is when \<^verbatim>\<open>parse_cluster_yaml\<close> returns a text and \<^verbatim>\<open>print\<close> can encode it
    for standard output, the text (and a newline) is written on standard output, nothing
    on standard error, and the status is 0;
  \<^item> when the path does not exist, it prints \<^verbatim>\<open>Error: <path> not found\<close> on standard error,
    nothing on standard output, and exits with status 1;
  \<^item> when the parser rejects the content, it prints \<^verbatim>\<open>Error parsing YAML: <message>\<close> on
    standard error, nothing on standard output, and exits with status 1;
  \<^item> whenever the main block ends by itself, the status is 0 exactly when the function
    returned and its text was printed, and otherwise it is 1, with a message on standard
    error and an empty standard output, and the path did not exist or the parser rejected
    the content.
  When \<^verbatim>\<open>print\<close> cannot encode the text, \<^verbatim>\<open>UnicodeEncodeError\<close> leaves the main block: neither
  handler catches it, and nothing was written on standard output.
\<close>

theorem process_exit_behaviour:
  "(parse_cluster_yaml w path = Inr out \<longrightarrow> stdout_encodes w (out @ [newline]) \<longrightarrow>
      main w [prog, path] = Inr \<lparr>stdout = out @ [newline], stderr = [], exit_status = 0\<rparr>) \<and>
   (parse_cluster_yaml w path = Inr out \<longrightarrow> \<not> stdout_encodes w (out @ [newline]) \<longrightarrow>
      main w [prog, path] = Inl UnicodeEncodeError) \<and>
   (open_file w path = NoSuchFile \<longrightarrow>
      main w [prog, path] =
        Inr \<lparr>stdout = [], stderr = ''Error: '' @ path @ '' not found'' @ [newline],
             exit_status = 1\<rparr>) \<and>
   (open_file w path = Content body \<longrightarrow> safe_load w body = Malformed msg \<longrightarrow>
      main w [prog, path] =
        Inr \<lparr>stdout = [], stderr = ''Error parsing YAML: '' @ msg @ [newline],
             exit_status = 1\<rparr>) \<and>
   (\<forall>r. main w [prog, path] = Inr r \<longrightarrow>
      (exit_status r = 0 \<longleftrightarrow>
         (\<exists>out. parse_cluster_yaml w path = Inr out \<and> stdout_encodes w (out @ [newline]) \<and>
                stdout r = out @ [newline])) \<and>
      (exit_status r \<noteq> 0 \<longrightarrow>
         exit_status r = 1 \<and> stdout r = [] \<and> stderr r \<noteq> [] \<and>
         (open_file w path = NoSuchFile \<or>
          (\<exists>body msg. open_file w path = Content body \<and> safe_load w body = Malformed msg))))"
proof -
  have 1: "main w [prog, path] = Inr \<lparr>stdout = out @ [newline], stderr = [], exit_status = 0\<rparr>"
    if "parse_cluster_yaml w path = Inr out" and "stdout_encodes w (out @ [newline])"
    using that by (simp add: main_two_args)
  have 2: "main w [prog, path] = Inl UnicodeEncodeError"
    if "parse_cluster_yaml w path = Inr out" and "\<not> stdout_encodes w (out @ [newline])"
    using that by (simp add: main_two_args)
  have 3: "main w [prog, path] =
        Inr \<lparr>stdout = [], stderr = ''Error: '' @ path @ '' not found'' @ [newline],
             exit_status = 1\<rparr>"
    if "open_file w path = NoSuchFile"
  proof -
    from that have "parse_cluster_yaml w path = Inl FileNotFoundError"
      by (simp add: parse_not_found)
    then show ?thesis by (simp add: main_two_args)
  qed
  have 4: "main w [prog, path] =
        Inr \<lparr>stdout = [], stderr = ''Error parsing YAML: '' @ msg @ [newline],
             exit_status = 1\<rparr>"
    if "open_file w path = Content body" and "safe_load w body = Malformed msg"
  proof -
    from that have "parse_cluster_yaml w path = Inl (YAMLError msg)"
      unfolding parse_yaml_error by blast
    then show ?thesis by (simp add: main_two_args)
  qed
  have 5: "(exit_status r = 0 \<longleftrightarrow>
         (\<exists>out. parse_cluster_yaml w path = Inr out \<and> stdout_encodes w (out @ [newline]) \<and>
                stdout r = out @ [newline])) \<and>
      (exit_status r \<noteq> 0 \<longrightarrow>
         exit_status r = 1 \<and> stdout r = [] \<and> stderr r \<noteq> [] \<and>
         (open_file w path = NoSuchFile \<or>
          (\<exists>body msg. open_file w path = Content body \<and> safe_load w body = Malformed msg)))"
    if "main w [prog, path] = Inr r" for r
    using main_Inr_cases [OF that] parse_not_found [of w path] parse_yaml_error [of w path]
    by auto
  from 1 2 3 4 5 show ?thesis by blast
qed

theorem process_exit_behaviour_witness:
  "(\<exists>out. main demo_world [''parse_cluster_yaml.py'', ''cluster.yaml''] =
           Inr \<lparr>stdout = out @ [newline], stderr = [], exit_status = 0\<rparr>) \<and>
   main ascii_stdout_world [''parse_cluster_yaml.py'', ''cluster.yaml''] = Inl UnicodeEncodeError \<and>
   main demo_world [''parse_cluster_yaml.py'', ''missing.yaml''] =
     Inr \<lparr>stdout = [], stderr = ''Error: '' @ ''missing.yaml'' @ '' not found'' @ [newline],
          exit_status = 1\<rparr> \<and>
   main demo_world [''parse_cluster_yaml.py'', ''broken.yaml''] =
     Inr \<lparr>stdout = [],
          stderr = ''Error parsing YAML: '' @ ''while parsing a flow node'' @ [newline],
          exit_status = 1\<rparr>"
proof -
  note t = process_exit_behaviour [where w = demo_world and prog = "''parse_cluster_yaml.py''"]
  note u = process_exit_behaviour [where w = ascii_stdout_world
      and prog = "''parse_cluster_yaml.py''"]
  obtain out where p: "parse_cluster_yaml demo_world ''cluster.yaml'' = Inr out"
    using demo_world_output by blast
  have e: "stdout_encodes demo_world (out @ [newline])"
    by (simp add: demo_world_def)
  have q: "parse_cluster_yaml ascii_stdout_world ''cluster.yaml'' = Inr accent_output"
    by (rule accent_output)
  have ne: "\<not> stdout_encodes ascii_stdout_world (accent_output @ [newline])"
    by (simp add: ascii_stdout_world_def accent_output_def ascii_def ascii_char_def)
  have m: "open_file demo_world ''missing.yaml'' = NoSuchFile"
    by (simp add: demo_world_def)
  have b: "open_file demo_world ''broken.yaml'' = Content ''{''"
    and l: "safe_load demo_world ''{'' = Malformed ''while parsing a flow node''"
    by (simp_all add: demo_world_def)
  note t [THEN conjunct1, THEN mp, THEN mp, OF p e]
    u [THEN conjunct2, THEN conjunct1, THEN mp, THEN mp, OF q ne]
    t [THEN conjunct2, THEN conjunct2, THEN conjunct1, THEN mp, OF m]
    t [THEN conjunct2, THEN conjunct2, THEN conjunct2, THEN conjunct1, THEN mp, THEN mp, OF b l]
  then show ?thesis by blast
qed

lemma main_parse_error:
  "main w [prog, path] =
     Inr \<lparr>stdout = [], stderr = ''Error parsing YAML: '' @ msg @ [newline], exit_status = 1\<rparr>
   \<longleftrightarrow> parse_cluster_yaml w path = Inl (YAMLError msg)"
proof (cases "parse_cluster_yaml w path")
  case (Inr out)
  then show ?thesis by (simp add: main_two_args)
next
  case (Inl e)
  then show ?thesis by (cases e) (simp_all add: main_two_args)
qed

lemma flatten_not_mapping:
  assumes "\<forall>kvs. config \<noteq> YMap kvs"
  shows "flatten config = Inl AttributeError"
  unfolding flatten_def project_lines_def
  by (simp add: dict_get_not_mapping [OF assms])

section \<open>Documents that do not parse\<close>

text \<open>
  C2, as the code has it. \<^verbatim>\<open>parse_cluster_yaml\<close> fails with the parser's error exactly when
  the file was read and the parser rejected its content; the main block prints
  \<^verbatim>\<open>Error parsing YAML: <message>\<close> on standard error, nothing on standard output, and exits
  with status 1 exactly in this case. Content that the parser loads as something other than
  a mapping (\<^verbatim>\<open>null\<close>, a scalar, a sequence) is not a parse error: the first \<^verbatim>\<open>config.get\<close>
  raises \<^verbatim>\<open>AttributeError\<close>, which no handler of the main block catches.
\<close>

theorem parse_error_exactly:
  "(parse_cluster_yaml w path = Inl (YAMLError msg) \<longleftrightarrow>
      (\<exists>body. open_file w path = Content body \<and> safe_load w body = Malformed msg)) \<and>
   (main w [prog, path] =
      Inr \<lparr>stdout = [], stderr = ''Error parsing YAML: '' @ msg @ [newline], exit_status = 1\<rparr>
    \<longleftrightarrow> (\<exists>body. open_file w path = Content body \<and> safe_load w body = Malformed msg)) \<and>
   (\<forall>body config. open_file w path = Content body \<longrightarrow> safe_load w body = Loaded config \<longrightarrow>
      (\<forall>kvs. config \<noteq> YMap kvs) \<longrightarrow>
        parse_cluster_yaml w path = Inl AttributeError \<and>
        main w [prog, path] = Inl AttributeError)"
proof -
  have 3: "parse_cluster_yaml w path = Inl AttributeError \<and> main w [prog, path] = Inl AttributeError"
    if "open_file w path = Content body" and "safe_load w body = Loaded config"
      and "\<forall>kvs. config \<noteq> YMap kvs" for body config
  proof -
    from that have "parse_cluster_yaml w path = Inl AttributeError"
      unfolding parse_cluster_yaml_def by (simp add: flatten_not_mapping)
    then show ?thesis by (simp add: main_two_args)
  qed
  from parse_yaml_error [of w path msg] main_parse_error [of w prog path msg] 3
  show ?thesis by blast
qed

theorem parse_error_exactly_witness:
  "parse_cluster_yaml demo_world ''broken.yaml'' = Inl (YAMLError ''while parsing a flow node'') \<and>
   main demo_world [''parse_cluster_yaml.py'', ''broken.yaml''] =
     Inr \<lparr>stdout = [],
          stderr = ''Error parsing YAML: '' @ ''while parsing a flow node'' @ [newline],
          exit_status = 1\<rparr> \<and>
   main nonmapping_world [''parse_cluster_yaml.py'', ''scalar.yaml''] = Inl AttributeError"
proof -
  have b: "\<exists>body. open_file demo_world ''broken.yaml'' = Content body \<and>
             safe_load demo_world body = Malformed ''while parsing a flow node''"
    by (simp add: demo_world_def)
  note t = parse_error_exactly [where w = demo_world and path = "''broken.yaml''"
      and msg = "''while parsing a flow node''" and prog = "''parse_cluster_yaml.py''"]
  note u = parse_error_exactly [where w = nonmapping_world and path = "''scalar.yaml''"
      and prog = "''parse_cluster_yaml.py''"]
  have o: "open_file nonmapping_world ''scalar.yaml'' = Content ''42''"
    and l: "safe_load nonmapping_world ''42'' = Loaded (YInt 42)"
    by (simp_all add: nonmapping_world_def)
  have n: "\<forall>kvs. YInt 42 \<noteq> YMap kvs" by simp
  note t [THEN conjunct1, THEN iffD2, OF b]
    t [THEN conjunct2, THEN conjunct1, THEN iffD2, OF b]
    u [THEN conjunct2, THEN conjunct2, THEN spec, THEN spec, THEN mp, THEN mp, THEN mp,
       OF o l n, THEN conjunct2]
  then show ?thesis by blast
qed

text \<open>
  The claim as written fails on an empty file, which loads as \<^verbatim>\<open>None\<close>, and on a file that
  holds a number: the exception is \<^verbatim>\<open>AttributeError\<close>, and the main block does not report it.
\<close>

theorem nonmapping_document_counterexample:
  "open_file nonmapping_world ''empty.yaml'' = Content [] \<and>
   safe_load nonmapping_world [] = Loaded YNull \<and>
   parse_cluster_yaml nonmapping_world ''empty.yaml'' = Inl AttributeError \<and>
   main nonmapping_world [''parse_cluster_yaml.py'', ''empty.yaml''] = Inl AttributeError \<and>
   parse_cluster_yaml nonmapping_world ''scalar.yaml'' = Inl AttributeError \<and>
   main nonmapping_world [''parse_cluster_yaml.py'', ''scalar.yaml''] = Inl AttributeError"
  by (simp add: nonmapping_world_def main_two_args parse_cluster_yaml_def flatten_def
      project_lines_def)

lemma job_lines_not_mapping: "\<forall>kvs. job \<noteq> YMap kvs \<Longrightarrow> job_lines i job = Inl AttributeError"
  unfolding job_lines_def by (simp add: dict_get_not_mapping)

lemma jobs_loop_fails:
  "k < length js \<Longrightarrow> job_lines (i + k) (js ! k) = Inl e \<Longrightarrow>
   (\<forall>j<k. \<exists>l. job_lines (i + j) (js ! j) = Inr l) \<Longrightarrow> jobs_loop i js = Inl e"
proof (induction js arbitrary: i k)
  case Nil
  then show ?case by simp
next
  case (Cons job rest)
  show ?case
  proof (cases k)
    case 0
    with Cons.prems show ?thesis by simp
  next
    case (Suc k')
    from Cons.prems(3) Suc obtain l where l: "job_lines i job = Inr l"
      by fastforce
    have "jobs_loop (Suc i) rest = Inl e"
    proof (rule Cons.IH [of k'])
      show "k' < length rest" using Cons.prems(1) Suc by simp
      show "job_lines (Suc i + k') (rest ! k') = Inl e" using Cons.prems(2) Suc by simp
      show "\<forall>j<k'. \<exists>l. job_lines (Suc i + j) (rest ! j) = Inr l"
      proof (intro allI impI)
        fix j assume "j < k'"
        then have "Suc j < k" using Suc by simp
        with Cons.prems(3) have "\<exists>l. job_lines (i + Suc j) ((job # rest) ! Suc j) = Inr l"
          by blast
        then show "\<exists>l. job_lines (Suc i + j) (rest ! j) = Inr l" by simp
      qed
    qed
    with l show ?thesis by simp
  qed
qed

lemma flatten_jobs_fail:
  "project_lines config = Inr pl \<Longrightarrow> jobs_lines config = Inl e \<Longrightarrow> flatten config = Inl e"
  unfolding flatten_def by simp

lemma flatten_claude_fail:
  "project_lines config = Inr pl \<Longrightarrow> jobs_lines config = Inr jl \<Longrightarrow>
   claude_lines config = Inl e \<Longrightarrow> flatten config = Inl e"
  unfolding flatten_def by simp

lemma parse_flatten_fail:
  "open_file w path = Content body \<Longrightarrow> safe_load w body = Loaded config \<Longrightarrow>
   flatten config = Inl e \<Longrightarrow> parse_cluster_yaml w path = Inl e"
  unfolding parse_cluster_yaml_def by simp

lemma main_uncaught:
  "parse_cluster_yaml w path = Inl e \<Longrightarrow> raised_by_flatten e \<Longrightarrow> main w [prog, path] = Inl e"
  unfolding raised_by_flatten_def by (auto simp: main_two_args)

section \<open>Keys present with a null value\<close>

text \<open>
  C9, as the code has it. A default applies only to an absent key: a key present with the
  value \<^verbatim>\<open>null\<close> yields \<^verbatim>\<open>None\<close>. The statements run in order and the first exception wins, so
  for a loaded mapping whose \<^verbatim>\<open>project\<close> part raises nothing:
  \<^item> \<^verbatim>\<open>jobs\<close> present with \<^verbatim>\<open>null\<close> raises \<^verbatim>\<open>TypeError\<close> (\<^verbatim>\<open>len\<close> of \<^verbatim>\<open>None\<close>);
  \<^item> a \<^verbatim>\<open>jobs\<close> element that is not a mapping raises \<^verbatim>\<open>AttributeError\<close>, when the elements
    before it are processed without error;
  \<^item> \<^verbatim>\<open>claude\<close> present with \<^verbatim>\<open>null\<close> raises \<^verbatim>\<open>AttributeError\<close>, when the \<^verbatim>\<open>jobs\<close> part raises
    nothing.
  In each case the exception leaves \<^verbatim>\<open>parse_cluster_yaml\<close> and the main block uncaught: neither
  the not-found handler nor the parse-error handler applies.
\<close>

theorem null_values_bypass_error_paths:
  assumes "open_file w path = Content body" and "safe_load w body = Loaded (YMap kvs)"
    and "project_lines (YMap kvs) = Inr pl"
  shows "(\<forall>k d. map_of kvs (YStr k) = Some YNull \<longrightarrow> dict_get (YMap kvs) k d = Inr YNull) \<and>
         (map_of kvs (YStr ''jobs'') = Some YNull \<longrightarrow>
            parse_cluster_yaml w path = Inl TypeError \<and> main w [prog, path] = Inl TypeError) \<and>
         (\<forall>jobs js k. dict_get (YMap kvs) ''jobs'' (YList []) = Inr jobs \<longrightarrow>
            py_iter jobs = Inr js \<longrightarrow> k < length js \<longrightarrow> (\<forall>jkvs. js ! k \<noteq> YMap jkvs) \<longrightarrow>
            (\<forall>j<k. \<exists>l. job_lines j (js ! j) = Inr l) \<longrightarrow>
              parse_cluster_yaml w path = Inl AttributeError \<and>
              main w [prog, path] = Inl AttributeError) \<and>
         (\<forall>jl. jobs_lines (YMap kvs) = Inr jl \<longrightarrow> map_of kvs (YStr ''claude'') = Some YNull \<longrightarrow>
            parse_cluster_yaml w path = Inl AttributeError \<and>
            main w [prog, path] = Inl AttributeError)"
proof -
  have fail: "parse_cluster_yaml w path = Inl e \<and> main w [prog, path] = Inl e"
    if "flatten (YMap kvs) = Inl e" and "raised_by_flatten e" for e
    using parse_flatten_fail [OF assms(1,2) that(1)] main_uncaught [OF _ that(2)] by blast
  have 1: "\<forall>k d. map_of kvs (YStr k) = Some YNull \<longrightarrow> dict_get (YMap kvs) k d = Inr YNull"
    by simp
  have 2: "parse_cluster_yaml w path = Inl TypeError \<and> main w [prog, path] = Inl TypeError"
    if "map_of kvs (YStr ''jobs'') = Some YNull"
  proof -
    from that have "jobs_lines (YMap kvs) = Inl TypeError"
      unfolding jobs_lines_def by simp
    from flatten_jobs_fail [OF assms(3) this] show ?thesis
      by (intro fail) (simp_all add: raised_by_flatten_def)
  qed
  have 3: "parse_cluster_yaml w path = Inl AttributeError \<and> main w [prog, path] = Inl AttributeError"
    if g: "dict_get (YMap kvs) ''jobs'' (YList []) = Inr jobs" and it: "py_iter jobs = Inr js"
      and k: "k < length js" and nm: "\<forall>jkvs. js ! k \<noteq> YMap jkvs"
      and before: "\<forall>j<k. \<exists>l. job_lines j (js ! j) = Inr l" for jobs js k
  proof -
    have "jobs_loop 0 js = Inl AttributeError"
      using k job_lines_not_mapping [OF nm] before by (intro jobs_loop_fails [of k]) simp_all
    then have "jobs_lines (YMap kvs) = Inl AttributeError"
      unfolding jobs_lines_def using g it py_iter_len [OF it] by simp
    from flatten_jobs_fail [OF assms(3) this] show ?thesis
      by (intro fail) (simp_all add: raised_by_flatten_def)
  qed
  have 4: "parse_cluster_yaml w path = Inl AttributeError \<and> main w [prog, path] = Inl AttributeError"
    if jl: "jobs_lines (YMap kvs) = Inr jl" and c: "map_of kvs (YStr ''claude'') = Some YNull" for jl
  proof -
    from c have "claude_lines (YMap kvs) = Inl AttributeError"
      unfolding claude_lines_def by simp
    from flatten_claude_fail [OF assms(3) jl this] show ?thesis
      by (intro fail) (simp_all add: raised_by_flatten_def)
  qed
  from 1 2 3 4 show ?thesis by blast
qed

theorem null_values_bypass_error_paths_witness:
  "parse_cluster_yaml null_jobs_world ''jobs.yaml'' = Inl TypeError \<and>
   main null_jobs_world [''parse_cluster_yaml.py'', ''jobs.yaml''] = Inl TypeError"
proof -
  have o: "open_file null_jobs_world ''jobs.yaml'' = Content ''jobs''"
    and l: "safe_load null_jobs_world ''jobs'' = Loaded (YMap [(YStr ''jobs'', YNull)])"
    by (simp_all add: null_jobs_world_def)
  have p: "project_lines (YMap [(YStr ''jobs'', YNull)]) = Inr []"
    by (simp add: project_lines_def)
  have j: "map_of [(YStr ''jobs'', YNull)] (YStr ''jobs'') = Some YNull"
    by simp
  from null_values_bypass_error_paths [OF o l p, THEN conjunct2, THEN conjunct1, THEN mp, OF j]
  show ?thesis .
qed

text \<open>
  The claim as written fails on a mapping with \<^verbatim>\<open>jobs: null\<close> and a string for \<^verbatim>\<open>project\<close>:
  \<^verbatim>\<open>project.get\<close> raises \<^verbatim>\<open>AttributeError\<close> before \<^verbatim>\<open>len(jobs)\<close> is reached.
\<close>

theorem null_jobs_after_bad_project_counterexample:
  "open_file null_jobs_world ''both.yaml'' = Content ''both'' \<and>
   safe_load null_jobs_world ''both'' =
     Loaded (YMap [(YStr ''project'', YStr ''x''), (YStr ''jobs'', YNull)]) \<and>
   dict_get (YMap [(YStr ''project'', YStr ''x''), (YStr ''jobs'', YNull)]) ''jobs'' (YList [])
     = Inr YNull \<and>
   parse_cluster_yaml null_jobs_world ''both.yaml'' = Inl AttributeError \<and>
   parse_cluster_yaml null_jobs_world ''both.yaml'' \<noteq> Inl TypeError"
  by (simp add: null_jobs_world_def parse_cluster_yaml_def flatten_def project_lines_def)

section \<open>Auxiliary facts: the value behind every line\<close>

lemma dict_get_field: "dict_get (YMap kvs) k d = Inr (field kvs k d)"
  by (simp add: field_def)

lemma emits_escape: "emits (name @ CHR ''='' # shell_escape v) name v"
  by (simp add: emits_def shell_escape_def)

lemma emits_lowered_escape:
  "emits_lowered (name @ CHR ''='' # shell_escape (YStr (lower (py_str v)))) name v"
  by (simp add: emits_lowered_def shell_escape_def)

lemma job_lines_value:
  assumes "job_lines i (YMap jkvs) = Inr b"
  shows "\<exists>joined.
      py_join '','' (if isinstance_str (field jkvs ''depends_on'' (YList []))
                     then YList [field jkvs ''depends_on'' (YList [])]
                     else field jkvs ''depends_on'' (YList [])) = Inr joined \<and>
      b = [''JOB_'' @ str_nat i @ ''_NAME='' @ shell_escape (field jkvs ''name'' (YStr (''job_'' @ str_nat i))),
           ''JOB_'' @ str_nat i @ ''_SCRIPT='' @ shell_escape (field jkvs ''script'' (YStr [])),
           ''JOB_'' @ str_nat i @ ''_TYPE='' @ shell_escape (field jkvs ''type'' (YStr ''sbatch'')),
           ''JOB_'' @ str_nat i @ ''_ARRAY='' @ shell_escape (field jkvs ''array'' (YStr [])),
           ''JOB_'' @ str_nat i @ ''_DEPENDS_ON='' @ shell_escape (YStr joined),
           ''JOB_'' @ str_nat i @ ''_SBATCH_FLAGS='' @ shell_escape (field jkvs ''sbatch_flags'' (YStr []))]"
  using assms unfolding job_lines_def dict_get_field
  by (auto simp: and_then_eq_Inr)

lemma flatten_job_block:
  assumes "flatten config = Inr ls" and "project_lines config = Inr pl"
    and "dict_get config ''jobs'' (YList []) = Inr jobs" and "py_iter jobs = Inr js"
  shows "length ls = length pl + 1 + 6 * length js + 7 \<and>
         ls ! length pl = ''NUM_JOBS='' @ str_nat (length js) \<and>
         (\<forall>i<length js.
            job_lines i (js ! i) = Inr (take 6 (drop (length pl + 1 + 6 * i) ls)))"
proof -
  from flatten_shape [OF assms(1)] assms(2,3,4) obtain jl cl where
    jl: "jobs_loop 0 js = Inr jl" and cl: "claude_lines config = Inr cl" and
    ls: "ls = pl @ [''NUM_JOBS='' @ str_nat (length js)] @ jl @ cl"
    by auto
  have ljl: "length jl = 6 * length js" using jl by (rule jobs_loop_length)
  have lcl: "length cl = 7" using claude_lines_names [OF cl] by auto
  have len: "length ls = length pl + 1 + 6 * length js + 7"
    unfolding ls using ljl lcl by simp
  have num: "ls ! length pl = ''NUM_JOBS='' @ str_nat (length js)"
    unfolding ls by simp
  have blk: "job_lines i (js ! i) = Inr (take 6 (drop (length pl + 1 + 6 * i) ls))"
    if i: "i < length js" for i
  proof -
    have "6 * i + 6 \<le> length jl" using i ljl by simp
    then have "take 6 (drop (length pl + 1 + 6 * i) ls) = take 6 (drop (6 * i) jl)"
      unfolding ls by simp
    with jobs_loop_block [OF jl i] show ?thesis by simp
  qed
  from len num blk show ?thesis by blast
qed

lemma nth_of_block:
  assumes "Inr (take n (drop off ls)) = (Inr xs :: py_exc + string list)" and "k < length xs"
  shows "ls ! (off + k) = xs ! k"
proof -
  from assms(1) have xs: "xs = take n (drop off ls)" by simp
  with assms(2) have k: "k < n" "k < length ls - off" by simp_all
  then have "off \<le> length ls" by simp
  with k show ?thesis unfolding xs by simp
qed

end
